theory Spec2Isabelle
  imports Complex_Main "HOL-Library.Word"
begin

section \<open>JavaScript values and numbers\<close>

text \<open>
  The scripts compute with JavaScript numbers. A number is modelled as an exact rational.
  Prices are decimal strings with two decimals and quantities are integers, so the
  amounts in minor units (the results of \<open>Math.round\<close>) are integers, on which double
  arithmetic is exact below \<open>2^53\<close>; the quotient by \<open>1 + vatRate\<close> is the exact one,
  where JavaScript rounds it to a double before \<open>Math.round\<close>. \<open>NaN\<close> and the
  infinities have no counterpart here, so statements that divide by \<open>1 + vatRate\<close>
  assume that this divisor is not zero.

  A JSON field read by the scripts is absent, a number or a string.
\<close>

datatype jsval = JUndefined | JNum rat | JStr string

text \<open>JavaScript truthiness: \<open>undefined\<close>, \<open>0\<close> and the empty string are falsy.\<close>

fun truthy :: "jsval \<Rightarrow> bool" where
  "truthy JUndefined = False"
| "truthy (JNum x) = (x \<noteq> 0)"
| "truthy (JStr s) = (s \<noteq> [])"

text \<open>\<open>a || b\<close> on values, and on strings whose empty value stands for a missing field.\<close>

definition jsor :: "jsval \<Rightarrow> jsval \<Rightarrow> jsval" where
  "jsor a b = (if truthy a then a else b)"

definition stror :: "string \<Rightarrow> string \<Rightarrow> string" where
  "stror a b = (if a \<noteq> [] then a else b)"

definition is_digit :: "char \<Rightarrow> bool" where
  "is_digit c = (c \<in> set ''0123456789'')"

definition is_space :: "char \<Rightarrow> bool" where
  "is_space c = (c = CHR '' '' \<or> c = CHR 0x09 \<or> c = CHR 0x0A \<or> c = CHR 0x0D)"

definition digit_val :: "char \<Rightarrow> nat" where
  "digit_val c = of_char c - 48"

definition parse_digits :: "string \<Rightarrow> nat" where
  "parse_digits ds = foldl (\<lambda>a c. 10 * a + digit_val c) 0 ds"

text \<open>
  \<open>parseFloat\<close> on decimal notation: leading white space, an optional sign, digits and an
  optional fraction; the rest of the string is ignored, and \<open>None\<close> is \<open>NaN\<close>.
  Exponents are not read (the order files hold plain decimal strings such as \<open>449.60\<close>).
\<close>

definition parseFloat :: "string \<Rightarrow> rat option" where
  "parseFloat s =
     (let s1 = dropWhile is_space s;
          neg = (case s1 of [] \<Rightarrow> False | c # _ \<Rightarrow> c = CHR ''-'');
          s2 = (case s1 of [] \<Rightarrow> [] | c # r \<Rightarrow> if c = CHR ''-'' \<or> c = CHR ''+'' then r else s1);
          ip = takeWhile is_digit s2;
          rest = dropWhile is_digit s2;
          fp = (case rest of [] \<Rightarrow> [] | c # r \<Rightarrow> if c = CHR ''.'' then takeWhile is_digit r else []);
          v = of_nat (parse_digits ip) + of_nat (parse_digits fp) / 10 ^ length fp
      in if ip = [] \<and> fp = [] then None else Some (if neg then - v else v))"

text \<open>\<open>toNumber\<close>: a finite number is itself, anything that does not parse is \<open>0\<close>.\<close>

fun toNumber :: "jsval \<Rightarrow> rat" where
  "toNumber (JNum x) = x"
| "toNumber (JStr s) = (case parseFloat s of Some x \<Rightarrow> x | None \<Rightarrow> 0)"
| "toNumber JUndefined = 0"

text \<open>\<open>Math.round\<close>: the nearest integer, \<open>floor(x + 0.5)\<close>.\<close>

definition Math_round :: "rat \<Rightarrow> rat" where
  "Math_round x = of_int \<lfloor>x + 1 / 2\<rfloor>"

definition toOre :: "jsval \<Rightarrow> rat" where
  "toOre amount = Math_round (toNumber amount * 100)"

section \<open>Orders, configuration and sale lines\<close>

record line_item =
  li_title :: string
  li_quantity :: jsval
  li_price :: jsval
  li_price_set_amount :: jsval

record shipping_line =
  sl_title :: string
  sl_price :: jsval
  sl_price_set_amount :: jsval

text \<open>
  The fields of a Shopify order that the script reads. A missing string is the empty
  string and a missing number is \<open>0\<close>, both falsy in JavaScript. The fields of
  \<open>order.customer\<close> and \<open>order.shipping_address\<close> are flattened, and of
  \<open>order.billing_address\<close> only its presence is kept.
\<close>

record order =
  order_number :: nat
  order_id :: nat
  customer_email :: string
  customer_first_name :: string
  customer_last_name :: string
  customer_company :: string
  shipping_first_name :: string
  shipping_last_name :: string
  shipping_name :: string
  has_billing_address :: bool
  line_items :: "line_item list"
  shipping_lines :: "shipping_line list"
  total_price :: jsval
  current_total_price :: jsval
  processed_at :: string
  created_at :: string

text \<open>The fields of \<open>ShopifyFikenExternalSaleMigration\<close> set by its constructor.\<close>

record config =
  dryRun :: bool
  vatRate :: rat
  bankAccount :: string
  salesAccount :: string
  shippingAccount :: string
  feeAccount :: string
  feePercent :: rat
  feeAmountFixed :: int

record sale_line =
  description :: string
  account :: string
  vatType :: string
  netPrice :: rat
  netAmount :: rat
  vat :: rat
  vatAmount :: rat
  quantity :: rat

text \<open>The result of \<open>calculateTotals\<close>; its field \<open>vat\<close> is \<open>vat_total\<close> here.\<close>

record totals =
  net :: rat
  vat_total :: rat
  gross :: rat

subsection \<open>buildSaleLines\<close>

definition item_quantity :: "line_item \<Rightarrow> rat" where
  "item_quantity item = (let q = toNumber (li_quantity item) in if q \<noteq> 0 then q else 1)"

definition grossPerUnitOre :: "line_item \<Rightarrow> rat" where
  "grossPerUnitOre item =
     Math_round (toNumber (jsor (jsor (li_price item) (li_price_set_amount item)) (JNum 0)) * 100)"

definition netPerUnitOre :: "config \<Rightarrow> line_item \<Rightarrow> rat" where
  "netPerUnitOre cfg item = Math_round (grossPerUnitOre item / (1 + vatRate cfg))"

definition item_line :: "config \<Rightarrow> line_item \<Rightarrow> sale_line" where
  "item_line cfg item =
     (let qty = item_quantity item;
          vatPerUnitOre = grossPerUnitOre item - netPerUnitOre cfg item;
          lineNet = netPerUnitOre cfg item * qty;
          lineVat = vatPerUnitOre * qty
      in \<lparr> description = stror (li_title item) ''Shopify product'',
           account = salesAccount cfg,
           vatType = ''HIGH'',
           netPrice = lineNet,
           netAmount = lineNet,
           vat = lineVat,
           vatAmount = lineVat,
           quantity = 1 \<rparr>)"

definition shipping_gross :: "shipping_line \<Rightarrow> rat" where
  "shipping_gross shipping =
     toNumber (jsor (jsor (sl_price shipping) (sl_price_set_amount shipping)) (JNum 0))"

definition shipping_line_of :: "config \<Rightarrow> shipping_line \<Rightarrow> sale_line" where
  "shipping_line_of cfg shipping =
     (let grossOre = Math_round (shipping_gross shipping * 100);
          netOre = Math_round (grossOre / (1 + vatRate cfg));
          vatOre = grossOre - netOre
      in \<lparr> description = stror (sl_title shipping) ''Shipping'',
           account = shippingAccount cfg,
           vatType = ''HIGH'',
           netPrice = netOre,
           netAmount = netOre,
           vat = vatOre,
           vatAmount = vatOre,
           quantity = 1 \<rparr>)"

text \<open>The second loop: a shipping line whose price is not positive is skipped.\<close>

fun shipping_sale_lines :: "config \<Rightarrow> shipping_line list \<Rightarrow> sale_line list" where
  "shipping_sale_lines cfg [] = []"
| "shipping_sale_lines cfg (shipping # rest) =
     (if shipping_gross shipping \<le> 0 then shipping_sale_lines cfg rest
      else shipping_line_of cfg shipping # shipping_sale_lines cfg rest)"

definition buildSaleLines :: "config \<Rightarrow> order \<Rightarrow> sale_line list" where
  "buildSaleLines cfg ord =
     map (item_line cfg) (line_items ord) @ shipping_sale_lines cfg (shipping_lines ord)"

subsection \<open>calculateTotals and computeFeeAmount\<close>

definition calculateTotals :: "sale_line list \<Rightarrow> totals" where
  "calculateTotals lines =
     (let (n, v) = foldl (\<lambda>(n, v) line. (n + netAmount line, v + vatAmount line)) (0, 0) lines
      in \<lparr> net = n, vat_total = v, gross = n + v \<rparr>)"

text \<open>The fee before the guard: the fixed amount, plus the rounded percentage when it is positive.\<close>

definition computedFee :: "config \<Rightarrow> rat \<Rightarrow> rat" where
  "computedFee cfg g =
     (if feePercent cfg > 0 then of_int (feeAmountFixed cfg) + Math_round (g * feePercent cfg)
      else of_int (feeAmountFixed cfg))"

definition computeFeeAmount :: "config \<Rightarrow> rat \<Rightarrow> rat" where
  "computeFeeAmount cfg g = (if computedFee cfg g \<ge> g then 0 else computedFee cfg g)"

section \<open>Strings\<close>

definition digit_char :: "nat \<Rightarrow> char" where
  "digit_char d = ''0123456789'' ! d"

text \<open>The decimal notation of a number, as a template literal prints an order number.\<close>

function String_nat :: "nat \<Rightarrow> string" where
  "String_nat n =
     (if n < 10 then [digit_char n] else String_nat (n div 10) @ [digit_char (n mod 10)])"
  by pat_completeness auto
termination
  by (relation "measure id") auto

declare String_nat.simps [simp del]

definition lower_char :: "char \<Rightarrow> char" where
  "lower_char c =
     (case map_of (zip ''ABCDEFGHIJKLMNOPQRSTUVWXYZ'' ''abcdefghijklmnopqrstuvwxyz'') c of
        Some l \<Rightarrow> l
      | None \<Rightarrow> c)"

definition toLowerCase :: "string \<Rightarrow> string" where
  "toLowerCase s = map lower_char s"

definition trim :: "string \<Rightarrow> string" where
  "trim s = rev (dropWhile is_space (rev (dropWhile is_space s)))"

fun starts_with :: "string \<Rightarrow> string \<Rightarrow> bool" where
  "starts_with s [] = True"
| "starts_with [] (p # ps) = False"
| "starts_with (x # xs) (p # ps) = (x = p \<and> starts_with xs ps)"

text \<open>\<open>String.prototype.includes\<close>: the pattern occurs somewhere in the string.\<close>

fun str_includes :: "string \<Rightarrow> string \<Rightarrow> bool" where
  "str_includes [] p = (p = [])"
| "str_includes (x # xs) p = (starts_with (x # xs) p \<or> str_includes xs p)"

section \<open>The remote ledger and the state of a migration run\<close>

record customer =
  c_name :: string
  c_email :: string
  contactId :: string
  customerId :: string

record customer_payload =
  cp_name :: string
  cp_email :: string
  cp_has_address :: bool

record sale_payload =
  kind :: string
  saleNumber :: string
  date :: string
  currency :: string
  sp_customerId :: string
  lines :: "sale_line list"

text \<open>
  The order summary that \<open>generateOrderPdf\<close> renders from the order and from the \<open>context\<close>
  object that \<open>migrateOrder\<close> passes. The document is kept as the data it is rendered from.
\<close>

record pdf_context =
  ctx_saleNumber :: string
  ctx_saleDate :: string
  ctx_netAmount :: rat
  ctx_vatAmount :: rat
  ctx_grossAmount :: rat
  ctx_bankPaymentAmount :: rat
  ctx_feeAmount :: rat

record order_pdf =
  pdf_order :: order
  pdf_amounts :: pdf_context

text \<open>A sale of the ledger; an attachment is its download address and the document.\<close>

record sale =
  saleId :: string
  payload :: sale_payload
  payments :: "(string \<times> rat) list"
  saleAttachments :: "(string \<times> order_pdf) list"

text \<open>The requests a run sends to the ledger service, in the order they are sent.\<close>

datatype call =
    GetCustomers
  | CreateCustomer string
  | SearchSale string
  | CreateSale string
  | AddSalePayment string string rat
  | AttachFileToSale string string order_pdf

fun is_write :: "call \<Rightarrow> bool" where
  "is_write GetCustomers = False"
| "is_write (SearchSale k) = False"
| "is_write (CreateCustomer n) = True"
| "is_write (CreateSale k) = True"
| "is_write (AddSalePayment i a x) = True"
| "is_write (AttachFileToSale i f d) = True"

datatype error = CustomerIdUnresolved | NoBillableLines | RemoteFailure call

text \<open>
  What \<open>migrateOrder\<close>, \<open>getOrCreateCustomer\<close> and \<open>findSaleByNumber\<close> print with
  \<open>console.warn\<close> and \<open>console.error\<close>, and the payload printed by a dry run. Progress
  messages are left out, and so is the warning of \<open>computeFeeAmount\<close>, which is a
  function of the configuration and the amount here.
\<close>

datatype event =
    WarnCustomersUnavailable
  | WarnSearchFailed string
  | WarnTotalsDiffer rat
  | LogDryRunPayload sale_payload
  | ErrorAttachFailed

text \<open>
  The state a run works on. \<open>customers\<close>, \<open>sales\<close> and \<open>nextId\<close> are the ledger service;
  \<open>calls\<close> is the list of requests sent so far; \<open>fails c n\<close> says that request \<open>c\<close>, sent
  as the \<open>n\<close>-th one, is answered with an error and changes nothing; \<open>customerCache\<close> is
  the in-memory cache of the migration object; \<open>console\<close> is what has been printed;
  \<open>now\<close> is the clock's ISO date.

  The ledger service is outside the repository. It is taken to keep the customers and
  sales it is sent, to give each a fresh identifier, and to answer a search by sale
  number with the sales that carry the number. Each method of the ledger client is one
  request; a failed request makes the method throw.
\<close>

record world =
  customers :: "customer list"
  sales :: "sale list"
  nextId :: nat
  calls :: "call list"
  fails :: "call \<Rightarrow> nat \<Rightarrow> bool"
  customerCache :: "string \<Rightarrow> customer option"
  console :: "event list"
  now :: string

definition remote_call :: "call \<Rightarrow> world \<Rightarrow> bool \<times> world" where
  "remote_call c w = (\<not> fails w c (length (calls w)), w\<lparr>calls := calls w @ [c]\<rparr>)"

definition emit :: "event \<Rightarrow> world \<Rightarrow> world" where
  "emit e w = w\<lparr>console := console w @ [e]\<rparr>"

subsection \<open>The ledger client's operations\<close>

text \<open>
  The calls \<open>this.fiken.getCustomers\<close>, \<open>createCustomer\<close>, \<open>request\<close> (the search for a
  sale), \<open>createSale\<close>, \<open>addSalePayment\<close> and \<open>attachFileToSale\<close> of the migration script,
  as transitions of the state. What the client does with one HTTP exchange is the subject
  of a later section.
\<close>

definition fiken_getCustomers :: "world \<Rightarrow> (error + customer list) \<times> world" where
  "fiken_getCustomers w =
     (let (ok, w1) = remote_call GetCustomers w
      in if ok then (Inr (customers w1), w1) else (Inl (RemoteFailure GetCustomers), w1))"

definition fiken_createCustomer :: "customer_payload \<Rightarrow> world \<Rightarrow> (error + customer) \<times> world" where
  "fiken_createCustomer p w =
     (let (ok, w1) = remote_call (CreateCustomer (cp_name p)) w
      in if ok then
           (let c = \<lparr> c_name = cp_name p, c_email = cp_email p,
                      contactId = String_nat (nextId w1), customerId = [] \<rparr>
            in (Inr c, w1\<lparr>customers := customers w1 @ [c], nextId := Suc (nextId w1)\<rparr>))
         else (Inl (RemoteFailure (CreateCustomer (cp_name p))), w1))"

text \<open>\<open>GET /companies/<slug>/sales\<close> with \<open>saleNumber\<close> and \<open>pageSize: 1\<close>.\<close>

definition fiken_searchSales :: "string \<Rightarrow> world \<Rightarrow> (error + sale list) \<times> world" where
  "fiken_searchSales k w =
     (let (ok, w1) = remote_call (SearchSale k) w
      in if ok then (Inr (take 1 (filter (\<lambda>s. saleNumber (payload s) = k) (sales w1))), w1)
         else (Inl (RemoteFailure (SearchSale k)), w1))"

definition fiken_createSale :: "sale_payload \<Rightarrow> world \<Rightarrow> (error + sale) \<times> world" where
  "fiken_createSale p w =
     (let (ok, w1) = remote_call (CreateSale (saleNumber p)) w
      in if ok then
           (let s = \<lparr> saleId = String_nat (nextId w1), payload = p, payments = [],
                      saleAttachments = [] \<rparr>
            in (Inr s, w1\<lparr>sales := sales w1 @ [s], nextId := Suc (nextId w1)\<rparr>))
         else (Inl (RemoteFailure (CreateSale (saleNumber p))), w1))"

text \<open>
  Modelled from the spec: \<open>addSalePayment\<close> of the ledger client (payment-add, section 6)
  is called by the script but its source is not under src/. The payment is added to the
  sale with the given identifier.
\<close>

definition fiken_addSalePayment :: "string \<Rightarrow> string \<Rightarrow> rat \<Rightarrow> world \<Rightarrow> (error + unit) \<times> world" where
  "fiken_addSalePayment sid acc amount w =
     (let (ok, w1) = remote_call (AddSalePayment sid acc amount) w
      in if ok then
           (Inr (), w1\<lparr>sales := map (\<lambda>s. if saleId s = sid
                                            then s\<lparr>payments := payments s @ [(acc, amount)]\<rparr>
                                            else s) (sales w1)\<rparr>)
         else (Inl (RemoteFailure (AddSalePayment sid acc amount)), w1))"

text \<open>
  Modelled from the spec: \<open>attachFileToSale\<close> of the ledger client (document-attach,
  section 6) is called by the script but its source is not under src/. The request
  carries the document; the sale with the given identifier gets it as an attachment whose
  download address ends in the file name.
\<close>

definition fiken_attachFileToSale ::
  "string \<Rightarrow> string \<Rightarrow> order_pdf \<Rightarrow> world \<Rightarrow> (error + unit) \<times> world" where
  "fiken_attachFileToSale sid filename doc w =
     (let (ok, w1) = remote_call (AttachFileToSale sid filename doc) w
      in if ok then
           (Inr (), w1\<lparr>sales := map (\<lambda>s. if saleId s = sid
                                            then s\<lparr>saleAttachments :=
                                                     saleAttachments s @
                                                       [(''/attachments/'' @ filename, doc)]\<rparr>
                                            else s) (sales w1)\<rparr>)
         else (Inl (RemoteFailure (AttachFileToSale sid filename doc)), w1))"

section \<open>The migration of one order\<close>

definition getCustomerKey :: "order \<Rightarrow> string" where
  "getCustomerKey ord =
     stror (toLowerCase (customer_email ord)) (''order-'' @ String_nat (order_id ord))"

definition customer_name :: "order \<Rightarrow> string" where
  "customer_name ord =
     stror (stror (stror
       (trim (stror (customer_first_name ord) (shipping_first_name ord) @ '' '' @
              stror (customer_last_name ord) (shipping_last_name ord)))
       (customer_company ord)) (shipping_name ord)) ''Shopify Customer''"

definition getOrCreateCustomer :: "order \<Rightarrow> world \<Rightarrow> (error + customer) \<times> world" where
  "getOrCreateCustomer ord w =
     (let key = getCustomerKey ord
      in case customerCache w key of
           Some c \<Rightarrow> (Inr c, w)
         | None \<Rightarrow>
             (let email = customer_email ord;
                  (found, w1) =
                    (if email \<noteq> [] then
                       (case fiken_getCustomers w of
                          (Inr cs, w') \<Rightarrow>
                            (find (\<lambda>entry. toLowerCase (c_email entry) = toLowerCase email) cs, w')
                        | (Inl e, w') \<Rightarrow> (None, emit WarnCustomersUnavailable w'))
                     else (None, w))
              in case found of
                   Some c \<Rightarrow> (Inr c, w1\<lparr>customerCache := (customerCache w1)(key \<mapsto> c)\<rparr>)
                 | None \<Rightarrow>
                     (case fiken_createCustomer
                             \<lparr> cp_name = customer_name ord, cp_email = email,
                               cp_has_address = has_billing_address ord \<rparr> w1 of
                        (Inl e, w2) \<Rightarrow> (Inl e, w2)
                      | (Inr c, w2) \<Rightarrow>
                          (Inr c, w2\<lparr>customerCache := (customerCache w2)(key \<mapsto> c)\<rparr>))))"

definition findSaleByNumber :: "string \<Rightarrow> world \<Rightarrow> sale option \<times> world" where
  "findSaleByNumber k w =
     (case fiken_searchSales k w of
        (Inr found, w1) \<Rightarrow> ((case found of [] \<Rightarrow> None | s # _ \<Rightarrow> Some s), w1)
      | (Inl e, w1) \<Rightarrow> (None, emit (WarnSearchFailed k) w1))"

definition order_ref :: "order \<Rightarrow> string" where
  "order_ref ord = String_nat (if order_number ord \<noteq> 0 then order_number ord else order_id ord)"

definition pdf_filename :: "order \<Rightarrow> string" where
  "pdf_filename ord = ''shopify-order-'' @ order_ref ord @ ''.pdf''"

text \<open>
  \<open>generateOrderPdf\<close> prints fields of the order (among them \<open>total_price\<close>), the
  amounts of the context and the order as JSON. Rendering is local and is taken to succeed.
\<close>

definition generateOrderPdf :: "order \<Rightarrow> pdf_context \<Rightarrow> order_pdf" where
  "generateOrderPdf ord ctx = \<lparr> pdf_order = ord, pdf_amounts = ctx \<rparr>"

text \<open>
  The \<open>try\<close> block that renders the order summary and attaches it: a failed attachment is
  printed and swallowed.
\<close>

definition attachOrderSummary :: "order \<Rightarrow> string \<Rightarrow> pdf_context \<Rightarrow> world \<Rightarrow> world" where
  "attachOrderSummary ord sid ctx w =
     (case fiken_attachFileToSale sid (pdf_filename ord) (generateOrderPdf ord ctx) w of
        (Inr u, w1) \<Rightarrow> w1
      | (Inl e, w1) \<Rightarrow> emit ErrorAttachFailed w1)"

definition bankPaymentAmount :: "config \<Rightarrow> rat \<Rightarrow> rat" where
  "bankPaymentAmount cfg g = (if computeFeeAmount cfg g > 0 then g - computeFeeAmount cfg g else g)"

text \<open>The two guarded \<open>addSalePayment\<close> calls; an error of either is thrown to the caller.\<close>

definition settlePayments :: "config \<Rightarrow> string \<Rightarrow> string \<Rightarrow> rat \<Rightarrow> world \<Rightarrow> (error + unit) \<times> world" where
  "settlePayments cfg sid saleDate g w =
     (let feeAmount = computeFeeAmount cfg g;
          bank = bankPaymentAmount cfg g;
          (r1, w1) = (if bank > 0 then fiken_addSalePayment sid (bankAccount cfg) bank w
                      else (Inr (), w))
      in case r1 of
           Inl e \<Rightarrow> (Inl e, w1)
         | Inr u \<Rightarrow>
             (if feeAmount > 0 then fiken_addSalePayment sid (feeAccount cfg) feeAmount w1
              else (Inr (), w1)))"

definition migrateOrder :: "config \<Rightarrow> order \<Rightarrow> world \<Rightarrow> (error + unit) \<times> world" where
  "migrateOrder cfg ord w =
     (let saleNum = ''#'' @ order_ref ord
      in case getOrCreateCustomer ord w of
           (Inl e, w1) \<Rightarrow> (Inl e, w1)
         | (Inr cust, w1) \<Rightarrow>
             (let custId = stror (contactId cust) (customerId cust)
              in if custId = [] then (Inl CustomerIdUnresolved, w1)
                 else
                   (let ls = buildSaleLines cfg ord
                    in if ls = [] then (Inl NoBillableLines, w1)
                       else
                         (let tot = calculateTotals ls;
                              shopifyGross = toOre (jsor (jsor (total_price ord) (current_total_price ord))
                                                      (JNum (gross tot / 100)));
                              w2 = (if \<bar>shopifyGross - gross tot\<bar> > 2
                                    then emit (WarnTotalsDiffer ((shopifyGross - gross tot) / 100)) w1
                                    else w1);
                              saleDate = takeWhile (\<lambda>c. c \<noteq> CHR ''T'')
                                           (stror (stror (processed_at ord) (created_at ord)) (now w2));
                              salePayload = \<lparr> kind = ''external_invoice'', saleNumber = saleNum,
                                              date = saleDate, currency = ''NOK'',
                                              sp_customerId = custId, lines = ls \<rparr>
                          in if dryRun cfg then (Inr (), emit (LogDryRunPayload salePayload) w2)
                             else
                               (case findSaleByNumber saleNum w2 of
                                  (Some existingSale, w3) \<Rightarrow>
                                    (if \<not> list_ex (\<lambda>att. str_includes (fst att) (pdf_filename ord))
                                              (saleAttachments existingSale)
                                     then (Inr (), attachOrderSummary ord (saleId existingSale)
                                             \<lparr> ctx_saleNumber = saleNum, ctx_saleDate = saleDate,
                                               ctx_netAmount = net tot, ctx_vatAmount = vat_total tot,
                                               ctx_grossAmount = gross tot,
                                               ctx_bankPaymentAmount = gross tot,
                                               ctx_feeAmount = computeFeeAmount cfg (gross tot) \<rparr> w3)
                                     else (Inr (), w3))
                                | (None, w3) \<Rightarrow>
                                    (case fiken_createSale salePayload w3 of
                                       (Inl e, w4) \<Rightarrow> (Inl e, w4)
                                     | (Inr created, w4) \<Rightarrow>
                                         (case settlePayments cfg (saleId created) saleDate (gross tot) w4 of
                                            (Inl e, w5) \<Rightarrow> (Inl e, w5)
                                          | (Inr u, w5) \<Rightarrow>
                                              (Inr (), attachOrderSummary ord (saleId created)
                                                 \<lparr> ctx_saleNumber = saleNum, ctx_saleDate = saleDate,
                                                   ctx_netAmount = net tot,
                                                   ctx_vatAmount = vat_total tot,
                                                   ctx_grossAmount = gross tot,
                                                   ctx_bankPaymentAmount = bankPaymentAmount cfg (gross tot),
                                                   ctx_feeAmount = computeFeeAmount cfg (gross tot) \<rparr>
                                                 w5))))))))"

section \<open>The ledger client over HTTP\<close>

text \<open>
  \<open>FikenAPI\<close> sends its requests through an axios client. A call of that client either
  resolves with a response (a status that axios accepts, the parsed body and the
  \<open>Location\<close> header) or rejects with an error, which carries the response when the
  service has answered (a 4xx or 5xx status) and none after a network failure. Redirects
  are followed inside the call. The service is a function from the number of the call and
  the request to the result of that call, so that a second call may be answered
  differently from the first; \<open>attempts\<close> counts the calls made.
\<close>

datatype json =
    JsNull
  | JsBool bool
  | JsNumber rat
  | JsString string
  | JsArray "json list"
  | JsObject "(string \<times> json) list"

record http_response =
  rs_status :: nat
  rs_data :: json
  rs_location :: "string option"

record http_request =
  http_method :: string
  http_url :: string
  http_data :: "json option"
  http_params :: "json option"

datatype axios_result = Resolved http_response | Rejected string "http_response option"

record http_client =
  attempts :: nat
  respond :: "nat \<Rightarrow> http_request \<Rightarrow> axios_result"

text \<open>
  What a method of the client throws: the error of axios as it is, the error that
  \<open>request\<close> builds from the message and \<open>JSON.stringify\<close> of the response data (it carries
  the response), or the \<open>TypeError\<close> of reading a property of \<open>null\<close> in the \<open>try\<close> block,
  which the \<open>catch\<close> block throws on like any other error.
\<close>

datatype api_error =
    AxiosError string "http_response option"
  | EnhancedError string json http_response
  | TypeError

definition client_request :: "http_request \<Rightarrow> http_client \<Rightarrow> axios_result \<times> http_client" where
  "client_request rq cl = (respond cl (attempts cl) rq, cl\<lparr>attempts := Suc (attempts cl)\<rparr>)"

fun json_truthy :: "json \<Rightarrow> bool" where
  "json_truthy JsNull = False"
| "json_truthy (JsBool b) = b"
| "json_truthy (JsNumber x) = (x \<noteq> 0)"
| "json_truthy (JsString s) = (s \<noteq> [])"
| "json_truthy (JsArray xs) = True"
| "json_truthy (JsObject kvs) = True"

text \<open>The properties that \<open>{...value}\<close> copies, and the assignment of one property.\<close>

fun own_properties :: "json \<Rightarrow> (string \<times> json) list" where
  "own_properties (JsObject kvs) = kvs"
| "own_properties (JsArray xs) = zip (map String_nat [0..<length xs]) xs"
| "own_properties (JsString s) = zip (map String_nat [0..<length s]) (map (\<lambda>c. JsString [c]) s)"
| "own_properties v = []"

fun set_property :: "string \<Rightarrow> json \<Rightarrow> (string \<times> json) list \<Rightarrow> (string \<times> json) list" where
  "set_property k v [] = [(k, v)]"
| "set_property k v (p # ps) = (if fst p = k then (k, v) # ps else p # set_property k v ps)"

definition spread :: "(string \<times> json) list \<Rightarrow> json \<Rightarrow> json" where
  "spread props v = JsObject (foldl (\<lambda>acc (k, x). set_property k x acc) props (own_properties v))"

definition last_segment :: "string \<Rightarrow> string" where
  "last_segment loc = rev (takeWhile (\<lambda>c. c \<noteq> CHR ''/'') (rev loc))"

text \<open>\<open>locationHeader ? locationHeader.split('/').pop() : null\<close>.\<close>

definition location_id :: "http_response \<Rightarrow> json" where
  "location_id r =
     (case rs_location r of
        None \<Rightarrow> JsNull
      | Some loc \<Rightarrow> if loc = [] then JsNull else JsString (last_segment loc))"

definition upper_char :: "char \<Rightarrow> char" where
  "upper_char c =
     (case map_of (zip ''abcdefghijklmnopqrstuvwxyz'' ''ABCDEFGHIJKLMNOPQRSTUVWXYZ'') c of
        Some u \<Rightarrow> u
      | None \<Rightarrow> c)"

definition toUpperCase :: "string \<Rightarrow> string" where
  "toUpperCase s = map upper_char s"

text \<open>
  The methods of \<open>FikenAPI\<close>. Each is one call of the axios client inside \<open>try\<close>, followed
  by a log entry and the result; the \<open>catch\<close> block logs and throws. A log entry that reads
  a property of the response data (\<open>response.data.length\<close>) fails when the data is \<open>null\<close>.
\<close>

definition getCompanies :: "http_client \<Rightarrow> (api_error + json) \<times> http_client" where
  "getCompanies cl =
     (let (out, cl1) = client_request
            \<lparr> http_method = ''GET'', http_url = ''/companies'',
              http_data = None, http_params = None \<rparr> cl
      in case out of
           Resolved r \<Rightarrow> (if rs_data r = JsNull then Inl TypeError else Inr (rs_data r), cl1)
         | Rejected msg r \<Rightarrow> (Inl (AxiosError msg r), cl1))"

definition getCustomers :: "string \<Rightarrow> http_client \<Rightarrow> (api_error + json) \<times> http_client" where
  "getCustomers companySlug cl =
     (let (out, cl1) = client_request
            \<lparr> http_method = ''GET'', http_url = ''/companies/'' @ companySlug @ ''/contacts'',
              http_data = None,
              http_params = Some (JsObject [(''contactType'', JsString ''customer'')]) \<rparr> cl
      in case out of
           Resolved r \<Rightarrow> (if rs_data r = JsNull then Inl TypeError else Inr (rs_data r), cl1)
         | Rejected msg r \<Rightarrow> (Inl (AxiosError msg r), cl1))"

definition getProducts :: "string \<Rightarrow> http_client \<Rightarrow> (api_error + json) \<times> http_client" where
  "getProducts companySlug cl =
     (let (out, cl1) = client_request
            \<lparr> http_method = ''GET'', http_url = ''/companies/'' @ companySlug @ ''/products'',
              http_data = None, http_params = None \<rparr> cl
      in case out of
           Resolved r \<Rightarrow> (if rs_data r = JsNull then Inl TypeError else Inr (rs_data r), cl1)
         | Rejected msg r \<Rightarrow> (Inl (AxiosError msg r), cl1))"

text \<open>
  \<open>getInvoices\<close>: the options are the page, the page size and the filters, each possibly
  absent.
\<close>

definition invoice_params :: "json option \<Rightarrow> json option \<Rightarrow> json option \<Rightarrow> json" where
  "invoice_params page pageSize filters =
     spread [(''page'', (case page of Some v \<Rightarrow> if json_truthy v then v else JsNumber 0
                                   | None \<Rightarrow> JsNumber 0)),
             (''pageSize'', (case pageSize of Some v \<Rightarrow> if json_truthy v then v else JsNumber 25
                                           | None \<Rightarrow> JsNumber 25))]
       (case filters of Some f \<Rightarrow> f | None \<Rightarrow> JsNull)"

definition getInvoices ::
  "string \<Rightarrow> json option \<Rightarrow> json option \<Rightarrow> json option \<Rightarrow> http_client
     \<Rightarrow> (api_error + json) \<times> http_client" where
  "getInvoices companySlug page pageSize filters cl =
     (let (out, cl1) = client_request
            \<lparr> http_method = ''GET'', http_url = ''/companies/'' @ companySlug @ ''/invoices'',
              http_data = None, http_params = Some (invoice_params page pageSize filters) \<rparr> cl
      in case out of
           Resolved r \<Rightarrow> (if rs_data r = JsNull then Inl TypeError else Inr (rs_data r), cl1)
         | Rejected msg r \<Rightarrow> (Inl (AxiosError msg r), cl1))"

definition createCustomer :: "string \<Rightarrow> json \<Rightarrow> http_client \<Rightarrow> (api_error + json) \<times> http_client" where
  "createCustomer companySlug customerData cl =
     (let (out, cl1) = client_request
            \<lparr> http_method = ''POST'', http_url = ''/companies/'' @ companySlug @ ''/contacts'',
              http_data = Some (spread [(''contactType'', JsString ''customer'')] customerData),
              http_params = None \<rparr> cl
      in case out of
           Resolved r \<Rightarrow> (Inr (spread [(''contactId'', location_id r)] (rs_data r)), cl1)
         | Rejected msg r \<Rightarrow> (Inl (AxiosError msg r), cl1))"

definition createProduct :: "string \<Rightarrow> json \<Rightarrow> http_client \<Rightarrow> (api_error + json) \<times> http_client" where
  "createProduct companySlug productData cl =
     (let (out, cl1) = client_request
            \<lparr> http_method = ''POST'', http_url = ''/companies/'' @ companySlug @ ''/products'',
              http_data = Some productData, http_params = None \<rparr> cl
      in case out of
           Resolved r \<Rightarrow> (if rs_data r = JsNull then Inl TypeError else Inr (rs_data r), cl1)
         | Rejected msg r \<Rightarrow> (Inl (AxiosError msg r), cl1))"

definition createInvoice :: "string \<Rightarrow> json \<Rightarrow> http_client \<Rightarrow> (api_error + json) \<times> http_client" where
  "createInvoice companySlug invoiceData cl =
     (let (out, cl1) = client_request
            \<lparr> http_method = ''POST'', http_url = ''/companies/'' @ companySlug @ ''/invoices'',
              http_data = Some invoiceData, http_params = None \<rparr> cl
      in case out of
           Resolved r \<Rightarrow> (Inr (spread [(''invoiceId'', location_id r)] (rs_data r)), cl1)
         | Rejected msg r \<Rightarrow> (Inl (AxiosError msg r), cl1))"

definition createVoucher :: "string \<Rightarrow> json \<Rightarrow> http_client \<Rightarrow> (api_error + json) \<times> http_client" where
  "createVoucher companySlug voucherData cl =
     (let (out, cl1) = client_request
            \<lparr> http_method = ''POST'',
              http_url = ''/companies/'' @ companySlug @ ''/generalJournalEntries'',
              http_data = Some voucherData, http_params = None \<rparr> cl
      in case out of
           Resolved r \<Rightarrow> (if rs_data r = JsNull then Inl TypeError else Inr (rs_data r), cl1)
         | Rejected msg r \<Rightarrow> (Inl (AxiosError msg r), cl1))"

definition getAccounts :: "string \<Rightarrow> http_client \<Rightarrow> (api_error + json) \<times> http_client" where
  "getAccounts companySlug cl =
     (let (out, cl1) = client_request
            \<lparr> http_method = ''GET'', http_url = ''/companies/'' @ companySlug @ ''/accounts'',
              http_data = None, http_params = None \<rparr> cl
      in case out of
           Resolved r \<Rightarrow> (if rs_data r = JsNull then Inl TypeError else Inr (rs_data r), cl1)
         | Rejected msg r \<Rightarrow> (Inl (AxiosError msg r), cl1))"

text \<open>\<open>setInvoiceCounter\<close>: the log entry after the call reads \<open>counterData.nextInvoiceNumber\<close>.\<close>

definition setInvoiceCounter :: "string \<Rightarrow> json \<Rightarrow> http_client \<Rightarrow> (api_error + json) \<times> http_client" where
  "setInvoiceCounter companySlug counterData cl =
     (let (out, cl1) = client_request
            \<lparr> http_method = ''POST'',
              http_url = ''/companies/'' @ companySlug @ ''/invoices/counter'',
              http_data = Some counterData, http_params = None \<rparr> cl
      in case out of
           Resolved r \<Rightarrow> (if counterData = JsNull then Inl TypeError else Inr (rs_data r), cl1)
         | Rejected msg r \<Rightarrow> (Inl (AxiosError msg r), cl1))"

definition sendInvoice :: "string \<Rightarrow> string \<Rightarrow> http_client \<Rightarrow> (api_error + json) \<times> http_client" where
  "sendInvoice companySlug invoiceId cl =
     (let (out, cl1) = client_request
            \<lparr> http_method = ''PUT'',
              http_url = ''/companies/'' @ companySlug @ ''/invoices/'' @ invoiceId @ ''/actions/send'',
              http_data = None, http_params = None \<rparr> cl
      in case out of
           Resolved r \<Rightarrow> (Inr (rs_data r), cl1)
         | Rejected msg r \<Rightarrow> (Inl (AxiosError msg r), cl1))"

definition addInvoicePayment ::
  "string \<Rightarrow> string \<Rightarrow> json \<Rightarrow> http_client \<Rightarrow> (api_error + json) \<times> http_client" where
  "addInvoicePayment companySlug invoiceId paymentData cl =
     (let (out, cl1) = client_request
            \<lparr> http_method = ''POST'',
              http_url = ''/companies/'' @ companySlug @ ''/invoices/'' @ invoiceId @ ''/payments'',
              http_data = Some paymentData, http_params = None \<rparr> cl
      in case out of
           Resolved r \<Rightarrow> (Inr (spread [(''paymentId'', location_id r)] (rs_data r)), cl1)
         | Rejected msg r \<Rightarrow> (Inl (AxiosError msg r), cl1))"

text \<open>
  \<open>createSale\<close>: the sale identifier is the last segment of the \<open>Location\<close> header, unless
  the response data has a property \<open>saleId\<close> of its own, which replaces it.
\<close>

definition createSale :: "string \<Rightarrow> json \<Rightarrow> http_client \<Rightarrow> (api_error + json) \<times> http_client" where
  "createSale companySlug saleData cl =
     (let (out, cl1) = client_request
            \<lparr> http_method = ''POST'', http_url = ''/companies/'' @ companySlug @ ''/sales'',
              http_data = Some saleData, http_params = None \<rparr> cl
      in case out of
           Resolved r \<Rightarrow> (Inr (spread [(''saleId'', location_id r)] (rs_data r)), cl1)
         | Rejected msg r \<Rightarrow> (Inl (AxiosError msg r), cl1))"

definition getInvoice :: "string \<Rightarrow> string \<Rightarrow> http_client \<Rightarrow> (api_error + json) \<times> http_client" where
  "getInvoice companySlug invoiceId cl =
     (let (out, cl1) = client_request
            \<lparr> http_method = ''GET'',
              http_url = ''/companies/'' @ companySlug @ ''/invoices/'' @ invoiceId,
              http_data = None, http_params = None \<rparr> cl
      in case out of
           Resolved r \<Rightarrow> (Inr (rs_data r), cl1)
         | Rejected msg r \<Rightarrow> (Inl (AxiosError msg r), cl1))"

text \<open>
  \<open>request\<close>: the data (\<open>None\<close> is \<open>null\<close>) is the body of a \<open>POST\<close>, \<open>PUT\<close> or \<open>PATCH\<close> and
  the query of a \<open>GET\<close>. The \<open>catch\<close> block throws a new error when the rejected call has
  a response with data that is not falsy, and the error of axios otherwise.
\<close>

definition request :: "string \<Rightarrow> string \<Rightarrow> json option \<Rightarrow> http_client \<Rightarrow> (api_error + json) \<times> http_client" where
  "request method endpoint data cl =
     (let has_data = (case data of Some d \<Rightarrow> json_truthy d | None \<Rightarrow> False);
          rq = \<lparr> http_method = toUpperCase method,
                 http_url = (if starts_with endpoint ''/'' then endpoint else ''/'' @ endpoint),
                 http_data = (if has_data \<and> toUpperCase method \<in> set [''POST'', ''PUT'', ''PATCH'']
                              then data else None),
                 http_params = (if has_data \<and> toUpperCase method = ''GET'' then data else None) \<rparr>;
          (out, cl1) = client_request rq cl
      in case out of
           Resolved r \<Rightarrow> (Inr (rs_data r), cl1)
         | Rejected msg None \<Rightarrow> (Inl (AxiosError msg None), cl1)
         | Rejected msg (Some r) \<Rightarrow>
             (if json_truthy (rs_data r) then (Inl (EnhancedError msg (rs_data r) r), cl1)
              else (Inl (AxiosError msg (Some r)), cl1)))"

text \<open>
  \<open>testConnection\<close> calls \<open>getCompanies\<close> and catches what it throws; it also catches the
  \<open>TypeError\<close> of building the summary from data that is not an array of objects. The
  summary is the number of companies, the failure is its message-less mark.
\<close>

datatype connection = ConnectionSuccess nat | ConnectionError

definition testConnection :: "http_client \<Rightarrow> connection \<times> http_client" where
  "testConnection cl =
     (case getCompanies cl of
        (Inr (JsArray companies), cl1) \<Rightarrow>
          (if JsNull \<in> set companies then ConnectionError else ConnectionSuccess (length companies), cl1)
      | (Inr other, cl1) \<Rightarrow> (ConnectionError, cl1)
      | (Inl e, cl1) \<Rightarrow> (ConnectionError, cl1))"

section \<open>The webhook endpoints\<close>

datatype idval = IdMissing | IdNum int | IdStr string

fun id_truthy :: "idval \<Rightarrow> bool" where
  "id_truthy IdMissing = False"
| "id_truthy (IdNum n) = (n \<noteq> 0)"
| "id_truthy (IdStr s) = (s \<noteq> [])"

fun id_string :: "idval \<Rightarrow> string" where
  "id_string IdMissing = ''undefined''"
| "id_string (IdNum n) = (if n < 0 then ''-'' else []) @ String_nat (nat \<bar>n\<bar>)"
| "id_string (IdStr s) = s"

record webhook_payload =
  p_id :: idval
  p_order_id :: idval
  p_order_dot_id :: idval
  p_admin_graphql_api_id :: idval

record webhook_request =
  hmac_header :: "string option"
  rawBody :: "string option"
  body :: "webhook_payload option"

datatype http_reply = Reply nat string

text \<open>
  The digest of \<open>crypto.createHmac('sha256', secret)\<close> is 32 bytes, a word of 256 bits
  here, and \<open>digest('base64')\<close> prints it with 43 characters of the base64 alphabet
  (six bits each, the last one padded with two zero bits) and one \<open>=\<close>.
\<close>

definition base64_alphabet :: string where
  "base64_alphabet = ''ABCDEFGHIJKLMNOPQRSTUVWXYZabcdefghijklmnopqrstuvwxyz0123456789+/''"

definition base64_digest :: "256 word \<Rightarrow> string" where
  "base64_digest d =
     map (\<lambda>i. base64_alphabet ! (unat d * 4 div 64 ^ (42 - i) mod 64)) [0..<43] @ ''=''"

text \<open>
  \<open>verifyShopifySignature\<close>. The keyed hash of Node's \<open>crypto\<close> module is the parameter
  \<open>hmac secret bytes\<close>. The header \<open>x-shopify-hmac-sha256\<close> is \<open>None\<close> when the request does
  not carry it, and \<open>rawBody\<close> is \<open>None\<close> when the body parser has not set it.
\<close>

definition verifyShopifySignature :: "(string \<Rightarrow> string \<Rightarrow> 256 word) \<Rightarrow> webhook_request \<Rightarrow> string \<Rightarrow> bool" where
  "verifyShopifySignature hmac req webhookSecret =
     (if webhookSecret = [] then False
      else
        (let signature = (case hmac_header req of Some h \<Rightarrow> h | None \<Rightarrow> []);
             generated = base64_digest
                           (hmac webhookSecret (case rawBody req of Some b \<Rightarrow> b | None \<Rightarrow> []))
         in if length generated \<noteq> length signature then False
            else generated = signature))"

text \<open>The loop over the candidates of \<open>extractOrderId\<close>; \<open>None\<close> is \<open>null\<close>.\<close>

fun first_numeric :: "idval list \<Rightarrow> nat option" where
  "first_numeric [] = None"
| "first_numeric (v # vs) =
     (let ds = filter is_digit (id_string v)
      in if ds \<noteq> [] then Some (parse_digits ds) else first_numeric vs)"

definition extractOrderId :: "webhook_payload option \<Rightarrow> nat option" where
  "extractOrderId p =
     (case p of
        None \<Rightarrow> None
      | Some pl \<Rightarrow>
          first_numeric (filter id_truthy
            [p_id pl, p_order_id pl, p_order_dot_id pl, p_admin_graphql_api_id pl]))"

text \<open>
  The handler of \<open>POST /webhooks/orders-paid\<close>. \<open>enqueueOrder\<close> of \<open>lib/db\<close> is not under
  src/: it is the parameter \<open>enq\<close>, which returns the new queue or \<open>None\<close> when it throws.
  Of the replies \<open>{status: 'accepted'}\<close> and \<open>{status: 'error'}\<close> the status is kept.
\<close>

definition orders_paid ::
  "(string \<Rightarrow> string \<Rightarrow> 256 word) \<Rightarrow> (nat \<Rightarrow> 'q \<Rightarrow> 'q option) \<Rightarrow> string \<Rightarrow> webhook_request \<Rightarrow> 'q
     \<Rightarrow> http_reply \<times> 'q" where
  "orders_paid hmac enq secret req q =
     (if \<not> verifyShopifySignature hmac req secret then (Reply 401 ''invalid signature'', q)
      else
        (case extractOrderId (body req) of
           Some orderId \<Rightarrow>
             (if orderId \<noteq> 0 then
                (case enq orderId q of
                   Some q1 \<Rightarrow> (Reply 202 ''accepted'', q1)
                 | None \<Rightarrow> (Reply 500 ''error'', q))
              else (Reply 202 ''accepted'', q))
         | None \<Rightarrow> (Reply 202 ''accepted'', q)))"

definition refunds_create :: "(string \<Rightarrow> string \<Rightarrow> 256 word) \<Rightarrow> string \<Rightarrow> webhook_request \<Rightarrow> http_reply" where
  "refunds_create hmac secret req =
     (if \<not> verifyShopifySignature hmac req secret then Reply 401 ''invalid signature''
      else Reply 202 ''accepted'')"

definition orders_cancelled :: "(string \<Rightarrow> string \<Rightarrow> 256 word) \<Rightarrow> string \<Rightarrow> webhook_request \<Rightarrow> http_reply" where
  "orders_cancelled hmac secret req =
     (if \<not> verifyShopifySignature hmac req secret then Reply 401 ''invalid signature''
      else Reply 202 ''accepted'')"

text \<open>
  \<open>createApp\<close> mounts \<open>express.json\<close> (limit 2mb, \<open>verify\<close> storing the bytes read in
  \<open>req.rawBody\<close>) before every route, so a \<open>POST\<close> reaches a handler only through it.
  The middleware belongs to the Express library; what it does with the body of a request
  is an input here. Either it fails, and since \<open>createApp\<close> installs no error handler
  Express answers with the status of the failure (400 for a body that is not JSON, 413 for
  a body over the limit) and an error page, and no handler runs. Or it passes the request
  on, with \<open>req.body\<close> the parsed object (\<open>{}\<close> when there was nothing to parse) and
  \<open>req.rawBody\<close> the bytes it has read, if it has read any.
\<close>

datatype body_parse = BodyRefused nat string | BodyPassed "string option" webhook_payload

text \<open>The request that a handler sees, or the reply of Express when the middleware fails.\<close>

definition express_json :: "string option \<Rightarrow> body_parse \<Rightarrow> http_reply + webhook_request" where
  "express_json header parsed =
     (case parsed of
        BodyRefused st page \<Rightarrow> Inl (Reply st page)
      | BodyPassed raw pl \<Rightarrow> Inr \<lparr> hmac_header = header, rawBody = raw, body = Some pl \<rparr>)"

text \<open>
  The three webhook routes of the application: a \<open>POST\<close> with the given signature header
  (if any) whose body the middleware treats as given.
\<close>

definition post_orders_paid ::
  "(string \<Rightarrow> string \<Rightarrow> 256 word) \<Rightarrow> (nat \<Rightarrow> 'q \<Rightarrow> 'q option) \<Rightarrow> string \<Rightarrow> string option
     \<Rightarrow> body_parse \<Rightarrow> 'q \<Rightarrow> http_reply \<times> 'q" where
  "post_orders_paid hmac enq secret header parsed q =
     (case express_json header parsed of
        Inl reply \<Rightarrow> (reply, q)
      | Inr req \<Rightarrow> orders_paid hmac enq secret req q)"

definition post_refunds_create ::
  "(string \<Rightarrow> string \<Rightarrow> 256 word) \<Rightarrow> string \<Rightarrow> string option \<Rightarrow> body_parse \<Rightarrow> http_reply" where
  "post_refunds_create hmac secret header parsed =
     (case express_json header parsed of
        Inl reply \<Rightarrow> reply
      | Inr req \<Rightarrow> refunds_create hmac secret req)"

definition post_orders_cancelled ::
  "(string \<Rightarrow> string \<Rightarrow> 256 word) \<Rightarrow> string \<Rightarrow> string option \<Rightarrow> body_parse \<Rightarrow> http_reply" where
  "post_orders_cancelled hmac secret header parsed =
     (case express_json header parsed of
        Inl reply \<Rightarrow> reply
      | Inr req \<Rightarrow> orders_cancelled hmac secret req)"

section \<open>Notions used by the statements\<close>



text \<open>
  The price of a shipping line: its field \<open>price\<close>, and \<open>price_set.shop_money.amount\<close>
  in its place when the field is absent, the number \<open>0\<close> or the empty string (the falsy
  values of JavaScript). A string such as \<open>0.00\<close> is not falsy: it is a price of zero.
\<close>

definition shipping_price :: "shipping_line \<Rightarrow> rat" where
  "shipping_price s =
     (if truthy (sl_price s) then toNumber (sl_price s) else toNumber (sl_price_set_amount s))"



text \<open>The amounts of the payments among a list of requests.\<close>

fun payment_amounts :: "call list \<Rightarrow> rat list" where
  "payment_amounts [] = []"
| "payment_amounts (AddSalePayment i a x # cs) = x # payment_amounts cs"
| "payment_amounts (c # cs) = payment_amounts cs"

text \<open>The requests sent by a step that takes the state \<open>w\<close> to \<open>w'\<close>.\<close>

definition issued :: "world \<Rightarrow> world \<Rightarrow> call list" where
  "issued w w' = drop (length (calls w)) (calls w')"

definition sale_key :: "order \<Rightarrow> string" where
  "sale_key ord = ''#'' @ order_ref ord"

text \<open>The sale numbers of the sales in the ledger, and how many sales carry a given number.\<close>

definition sale_keys :: "world \<Rightarrow> string list" where
  "sale_keys w = map (\<lambda>s. saleNumber (payload s)) (sales w)"

definition count_sales :: "string \<Rightarrow> world \<Rightarrow> nat" where
  "count_sales k w = count_list (sale_keys w) k"

text \<open>
  Every \<open>CreateSale\<close> request of the list comes after a \<open>SearchSale\<close> request for the same
  sale number (\<open>seen\<close> holds the numbers searched so far).
\<close>

fun searched_before_create :: "string list \<Rightarrow> call list \<Rightarrow> bool" where
  "searched_before_create seen [] = True"
| "searched_before_create seen (SearchSale k # cs) = searched_before_create (k # seen) cs"
| "searched_before_create seen (CreateSale k # cs) = (k \<in> set seen \<and> searched_before_create seen cs)"
| "searched_before_create seen (c # cs) = searched_before_create seen cs"

fun is_sale_call :: "call \<Rightarrow> bool" where
  "is_sale_call (SearchSale k) = True"
| "is_sale_call (CreateSale k) = True"
| "is_sale_call c = False"

fun is_customer_call :: "call \<Rightarrow> bool" where
  "is_customer_call GetCustomers = True"
| "is_customer_call (CreateCustomer n) = True"
| "is_customer_call c = False"

fun is_create_sale :: "call \<Rightarrow> bool" where
  "is_create_sale (CreateSale k) = True"
| "is_create_sale c = False"

text \<open>The part of \<open>migrateOrder\<close> after the dry-run return: search, then skip or create.\<close>

definition summary_context :: "sale_payload \<Rightarrow> totals \<Rightarrow> rat \<Rightarrow> rat \<Rightarrow> pdf_context" where
  "summary_context p tot bank fee =
     \<lparr> ctx_saleNumber = saleNumber p, ctx_saleDate = date p, ctx_netAmount = net tot,
       ctx_vatAmount = vat_total tot, ctx_grossAmount = gross tot, ctx_bankPaymentAmount = bank,
       ctx_feeAmount = fee \<rparr>"

definition saleStep :: "config \<Rightarrow> order \<Rightarrow> sale_payload \<Rightarrow> totals \<Rightarrow> world \<Rightarrow> (error + unit) \<times> world" where
  "saleStep cfg ord p tot w =
     (case findSaleByNumber (saleNumber p) w of
        (Some existingSale, w3) \<Rightarrow>
          (if \<not> list_ex (\<lambda>att. str_includes (fst att) (pdf_filename ord)) (saleAttachments existingSale)
           then (Inr (), attachOrderSummary ord (saleId existingSale)
                   (summary_context p tot (gross tot) (computeFeeAmount cfg (gross tot))) w3)
           else (Inr (), w3))
      | (None, w3) \<Rightarrow>
          (case fiken_createSale p w3 of
             (Inl e, w4) \<Rightarrow> (Inl e, w4)
           | (Inr created, w4) \<Rightarrow>
               (case settlePayments cfg (saleId created) (date p) (gross tot) w4 of
                  (Inl e, w5) \<Rightarrow> (Inl e, w5)
                | (Inr u, w5) \<Rightarrow>
                    (Inr (), attachOrderSummary ord (saleId created)
                       (summary_context p tot (bankPaymentAmount cfg (gross tot))
                          (computeFeeAmount cfg (gross tot))) w5))))"

text \<open>The steps of \<open>migrateOrder\<close> between the customer and the dry-run return.\<close>

definition shopifyGross :: "order \<Rightarrow> rat \<Rightarrow> rat" where
  "shopifyGross ord g = toOre (jsor (jsor (total_price ord) (current_total_price ord)) (JNum (g / 100)))"

definition warnTotals :: "order \<Rightarrow> rat \<Rightarrow> world \<Rightarrow> world" where
  "warnTotals ord g w =
     (if \<bar>shopifyGross ord g - g\<bar> > 2 then emit (WarnTotalsDiffer ((shopifyGross ord g - g) / 100)) w
      else w)"

definition salePayload :: "config \<Rightarrow> order \<Rightarrow> string \<Rightarrow> world \<Rightarrow> sale_payload" where
  "salePayload cfg ord custId w =
     \<lparr> kind = ''external_invoice'', saleNumber = sale_key ord,
       date = takeWhile (\<lambda>c. c \<noteq> CHR ''T'') (stror (stror (processed_at ord) (created_at ord)) (now w)),
       currency = ''NOK'', sp_customerId = custId, lines = buildSaleLines cfg ord \<rparr>"

definition afterCustomer :: "config \<Rightarrow> order \<Rightarrow> customer \<Rightarrow> world \<Rightarrow> (error + unit) \<times> world" where
  "afterCustomer cfg ord cust w =
     (let custId = stror (contactId cust) (customerId cust);
          tot = calculateTotals (buildSaleLines cfg ord);
          g = gross tot
      in if custId = [] then (Inl CustomerIdUnresolved, w)
         else if buildSaleLines cfg ord = [] then (Inl NoBillableLines, w)
         else if dryRun cfg
              then (Inr (), emit (LogDryRunPayload (salePayload cfg ord custId w)) (warnTotals ord g w))
              else saleStep cfg ord (salePayload cfg ord custId w) tot (warnTotals ord g w))"

text \<open>
  An invocation of a method of the ledger client that sends a request, the request it
  sends, and its execution.
\<close>

datatype api_call =
    CallGetCompanies
  | CallGetCustomers string
  | CallGetProducts string
  | CallGetInvoices string "json option" "json option" "json option"
  | CallCreateCustomer string json
  | CallCreateProduct string json
  | CallCreateInvoice string json
  | CallCreateVoucher string json
  | CallGetAccounts string
  | CallSetInvoiceCounter string json
  | CallSendInvoice string string
  | CallAddInvoicePayment string string json
  | CallCreateSale string json
  | CallGetInvoice string string
  | CallRequest string string "json option"

fun perform :: "api_call \<Rightarrow> http_client \<Rightarrow> (api_error + json) \<times> http_client" where
  "perform CallGetCompanies = getCompanies"
| "perform (CallGetCustomers slug) = getCustomers slug"
| "perform (CallGetProducts slug) = getProducts slug"
| "perform (CallGetInvoices slug page pageSize filters) = getInvoices slug page pageSize filters"
| "perform (CallCreateCustomer slug d) = createCustomer slug d"
| "perform (CallCreateProduct slug d) = createProduct slug d"
| "perform (CallCreateInvoice slug d) = createInvoice slug d"
| "perform (CallCreateVoucher slug d) = createVoucher slug d"
| "perform (CallGetAccounts slug) = getAccounts slug"
| "perform (CallSetInvoiceCounter slug d) = setInvoiceCounter slug d"
| "perform (CallSendInvoice slug i) = sendInvoice slug i"
| "perform (CallAddInvoicePayment slug i d) = addInvoicePayment slug i d"
| "perform (CallCreateSale slug d) = createSale slug d"
| "perform (CallGetInvoice slug i) = getInvoice slug i"
| "perform (CallRequest method endpoint d) = request method endpoint d"

fun request_of :: "api_call \<Rightarrow> http_request" where
  "request_of CallGetCompanies =
     \<lparr> http_method = ''GET'', http_url = ''/companies'', http_data = None, http_params = None \<rparr>"
| "request_of (CallGetCustomers slug) =
     \<lparr> http_method = ''GET'', http_url = ''/companies/'' @ slug @ ''/contacts'', http_data = None,
       http_params = Some (JsObject [(''contactType'', JsString ''customer'')]) \<rparr>"
| "request_of (CallGetProducts slug) =
     \<lparr> http_method = ''GET'', http_url = ''/companies/'' @ slug @ ''/products'', http_data = None,
       http_params = None \<rparr>"
| "request_of (CallGetInvoices slug page pageSize filters) =
     \<lparr> http_method = ''GET'', http_url = ''/companies/'' @ slug @ ''/invoices'', http_data = None,
       http_params = Some (invoice_params page pageSize filters) \<rparr>"
| "request_of (CallCreateCustomer slug d) =
     \<lparr> http_method = ''POST'', http_url = ''/companies/'' @ slug @ ''/contacts'',
       http_data = Some (spread [(''contactType'', JsString ''customer'')] d), http_params = None \<rparr>"
| "request_of (CallCreateProduct slug d) =
     \<lparr> http_method = ''POST'', http_url = ''/companies/'' @ slug @ ''/products'',
       http_data = Some d, http_params = None \<rparr>"
| "request_of (CallCreateInvoice slug d) =
     \<lparr> http_method = ''POST'', http_url = ''/companies/'' @ slug @ ''/invoices'',
       http_data = Some d, http_params = None \<rparr>"
| "request_of (CallCreateVoucher slug d) =
     \<lparr> http_method = ''POST'', http_url = ''/companies/'' @ slug @ ''/generalJournalEntries'',
       http_data = Some d, http_params = None \<rparr>"
| "request_of (CallGetAccounts slug) =
     \<lparr> http_method = ''GET'', http_url = ''/companies/'' @ slug @ ''/accounts'', http_data = None,
       http_params = None \<rparr>"
| "request_of (CallSetInvoiceCounter slug d) =
     \<lparr> http_method = ''POST'', http_url = ''/companies/'' @ slug @ ''/invoices/counter'',
       http_data = Some d, http_params = None \<rparr>"
| "request_of (CallSendInvoice slug i) =
     \<lparr> http_method = ''PUT'', http_url = ''/companies/'' @ slug @ ''/invoices/'' @ i @ ''/actions/send'',
       http_data = None, http_params = None \<rparr>"
| "request_of (CallAddInvoicePayment slug i d) =
     \<lparr> http_method = ''POST'', http_url = ''/companies/'' @ slug @ ''/invoices/'' @ i @ ''/payments'',
       http_data = Some d, http_params = None \<rparr>"
| "request_of (CallCreateSale slug d) =
     \<lparr> http_method = ''POST'', http_url = ''/companies/'' @ slug @ ''/sales'',
       http_data = Some d, http_params = None \<rparr>"
| "request_of (CallGetInvoice slug i) =
     \<lparr> http_method = ''GET'', http_url = ''/companies/'' @ slug @ ''/invoices/'' @ i,
       http_data = None, http_params = None \<rparr>"
| "request_of (CallRequest method endpoint d) =
     (let has_data = (case d of Some v \<Rightarrow> json_truthy v | None \<Rightarrow> False)
      in \<lparr> http_method = toUpperCase method,
           http_url = (if starts_with endpoint ''/'' then endpoint else ''/'' @ endpoint),
           http_data = (if has_data \<and> toUpperCase method \<in> set [''POST'', ''PUT'', ''PATCH'']
                        then d else None),
           http_params = (if has_data \<and> toUpperCase method = ''GET'' then d else None) \<rparr>)"

text \<open>
  What a method throws when its call of the axios client is rejected with the given message
  and response: the error of axios itself, except that \<open>request\<close> wraps it when the
  response has data that is not falsy.
\<close>

fun thrown :: "api_call \<Rightarrow> string \<Rightarrow> http_response option \<Rightarrow> api_error" where
  "thrown (CallRequest method endpoint d) msg (Some r) =
     (if json_truthy (rs_data r) then EnhancedError msg (rs_data r) r else AxiosError msg (Some r))"
| "thrown c msg r = AxiosError msg r"

text \<open>The sales of the ledger without their attachments.\<close>

definition sale_record :: "sale \<Rightarrow> string \<times> sale_payload \<times> (string \<times> rat) list" where
  "sale_record s = (saleId s, payload s, payments s)"

definition sale_records :: "world \<Rightarrow> (string \<times> sale_payload \<times> (string \<times> rat) list) list" where
  "sale_records w = map sale_record (sales w)"

text \<open>Two states that agree on everything but what has been printed.\<close>

definition same_ledger :: "world \<Rightarrow> world \<Rightarrow> bool" where
  "same_ledger w w' =
     (customers w = customers w' \<and> sales w = sales w' \<and> nextId w = nextId w' \<and>
      calls w = calls w' \<and> fails w = fails w' \<and> customerCache w = customerCache w' \<and>
      now w = now w')"

section \<open>Concrete inputs\<close>

text \<open>
  The default configuration (25 percent VAT, no fee), and variants of it: a dry run, a
  VAT rate of 100 percent, a fee of 2.9 percent plus 250 minor units.
\<close>

definition cfg0 :: config where
  "cfg0 = \<lparr> dryRun = False, vatRate = 1 / 4, bankAccount = ''1920:10001'', salesAccount = ''3000'',
            shippingAccount = ''3000'', feeAccount = ''7770'', feePercent = 0, feeAmountFixed = 0 \<rparr>"

definition cfg_dry :: config where
  "cfg_dry = cfg0\<lparr>dryRun := True\<rparr>"

definition cfg_full_vat :: config where
  "cfg_full_vat = cfg0\<lparr>vatRate := 1\<rparr>"

definition cfg_fee :: config where
  "cfg_fee = cfg0\<lparr>feePercent := 29 / 1000, feeAmountFixed := 250\<rparr>"

text \<open>
  The order \<open>#3403\<close> with one product and one shipping line, and variants of it: a single
  item of 0.25, a reported total that is off by 100.00, no line item and free shipping
  (one line without \<open>price_set\<close>, one whose \<open>price_set\<close> is not zero), no line item and
  a shipping line without the field \<open>price\<close> and with a \<open>price_set\<close> of 64.00.
\<close>

definition item0 :: line_item where
  "item0 = \<lparr> li_title = ''Widget'', li_quantity = JNum 1, li_price = JStr ''449.60'',
             li_price_set_amount = JUndefined \<rparr>"

definition item_quarter :: line_item where
  "item_quarter = \<lparr> li_title = ''Sticker'', li_quantity = JNum 1, li_price = JNum (1 / 4),
                    li_price_set_amount = JUndefined \<rparr>"

definition ship0 :: shipping_line where
  "ship0 = \<lparr> sl_title = ''Posten'', sl_price = JStr ''64.00'', sl_price_set_amount = JUndefined \<rparr>"

definition ship_free :: shipping_line where
  "ship_free = \<lparr> sl_title = ''Pickup'', sl_price = JStr ''0.00'', sl_price_set_amount = JUndefined \<rparr>"

definition ship_zero_set :: shipping_line where
  "ship_zero_set = \<lparr> sl_title = ''Campaign'', sl_price = JStr ''0.00'',
                     sl_price_set_amount = JStr ''64.00'' \<rparr>"

definition ship_fallback :: shipping_line where
  "ship_fallback = \<lparr> sl_title = ''Courier'', sl_price = JUndefined,
                     sl_price_set_amount = JStr ''64.00'' \<rparr>"

definition order0 :: order where
  "order0 = \<lparr> order_number = 3403, order_id = 77, customer_email = ''Kari@Example.no'',
      customer_first_name = ''Kari'', customer_last_name = ''Nordmann'', customer_company = [],
      shipping_first_name = [], shipping_last_name = [], shipping_name = [],
      has_billing_address = False, line_items = [item0], shipping_lines = [ship0],
      total_price = JStr ''513.60'', current_total_price = JUndefined,
      processed_at = ''2025-09-21T10:00:00+02:00'', created_at = [] \<rparr>"

definition order_quarter :: order where
  "order_quarter = order0\<lparr>line_items := [item_quarter], shipping_lines := []\<rparr>"

definition order_off_total :: order where
  "order_off_total = order0\<lparr>total_price := JStr ''613.60''\<rparr>"

definition order_empty :: order where
  "order_empty = order0\<lparr>line_items := [], shipping_lines := [ship_free, ship_zero_set]\<rparr>"

definition order_fallback :: order where
  "order_fallback = order0\<lparr>line_items := [], shipping_lines := [ship_zero_set, ship_fallback]\<rparr>"

text \<open>
  Ledger services: one that answers every request, one whose search for \<open>#3403\<close> fails,
  one whose creation of the customer fails; an empty cache and an empty ledger.
\<close>

definition never_fails :: "call \<Rightarrow> nat \<Rightarrow> bool" where
  "never_fails c n = False"

definition search_fails :: "call \<Rightarrow> nat \<Rightarrow> bool" where
  "search_fails c n = (c = SearchSale ''#3403'')"

definition create_customer_fails :: "call \<Rightarrow> nat \<Rightarrow> bool" where
  "create_customer_fails c n = (c = CreateCustomer ''Kari Nordmann'')"

definition no_cache :: "string \<Rightarrow> customer option" where
  "no_cache k = None"

definition world0 :: world where
  "world0 = \<lparr> customers = [], sales = [], nextId = 1, calls = [], fails = never_fails,
               customerCache = no_cache, console = [], now = ''2025-09-22T00:00:00Z'' \<rparr>"

text \<open>
  A service that rejects the first call with status 503 and resolves every later one with
  201, and a search for the sale \<open>#3403\<close>.
\<close>

definition unavailable :: http_response where
  "unavailable = \<lparr> rs_status = 503, rs_data = JsNull, rs_location = None \<rparr>"

definition flaky_once :: "nat \<Rightarrow> http_request \<Rightarrow> axios_result" where
  "flaky_once n rq =
     (if n = 0 then Rejected ''Request failed with status code 503'' (Some unavailable)
      else Resolved \<lparr> rs_status = 201, rs_data = JsArray [], rs_location = Some ''/sales/9'' \<rparr>)"

definition client0 :: http_client where
  "client0 = \<lparr> attempts = 0, respond = flaky_once \<rparr>"

definition search0 :: api_call where
  "search0 = CallRequest ''GET'' ''/companies/demo/sales''
               (Some (JsObject [(''saleNumber'', JsString ''#3403''), (''pageSize'', JsNumber 1)]))"

text \<open>A stand-in for the keyed hash, a queue that appends and a queue whose write throws.\<close>

definition toy_hmac :: "string \<Rightarrow> string \<Rightarrow> 256 word" where
  "toy_hmac secret bytes = of_nat (length secret + 31 * length bytes)"

definition enq_ok :: "nat \<Rightarrow> nat list \<Rightarrow> nat list option" where
  "enq_ok i q = Some (q @ [i])"


text \<open>
  A payload with the order identifier 5123, its bytes, the signature of these bytes under
  the secret \<open>key\<close>, and what the middleware makes of a body: the parsed payload with its
  bytes, or a failure with status 400.
\<close>

definition payload0 :: webhook_payload where
  "payload0 = \<lparr> p_id = IdNum 5123, p_order_id = IdMissing, p_order_dot_id = IdMissing,
                p_admin_graphql_api_id = IdStr ''gid://shopify/Order/5123'' \<rparr>"

definition bytes0 :: string where
  "bytes0 = ''{id:5123}''"

definition signature0 :: string where
  "signature0 = base64_digest (toy_hmac ''key'' bytes0)"


definition unparsable :: body_parse where
  "unparsable = BodyRefused 400 ''Bad Request''"

text \<open>
  The customer, the order summary and the state that the first run of the order \<open>#3403\<close>
  leaves.
\<close>

definition customer1 :: customer where
  "customer1 = \<lparr>c_name = ''Kari Nordmann'', c_email = ''Kari@Example.no'', contactId = ''1'', customerId = []\<rparr>"

definition summary0 :: order_pdf where
  "summary0 = \<lparr> pdf_order = order0,
      pdf_amounts = \<lparr> ctx_saleNumber = ''#3403'', ctx_saleDate = ''2025-09-21'',
        ctx_netAmount = 41088, ctx_vatAmount = 10272, ctx_grossAmount = 51360,
        ctx_bankPaymentAmount = 51360, ctx_feeAmount = 0 \<rparr> \<rparr>"

definition world1 :: world where
  "world1 = \<lparr> customers = [customer1],
    sales = [\<lparr>saleId = ''2'',
      payload = \<lparr>kind = ''external_invoice'', saleNumber = ''#3403'',
           date = ''2025-09-21'', currency = ''NOK'', sp_customerId = ''1'',
           lines = buildSaleLines cfg0 order0\<rparr>,
      payments = [(''1920:10001'', 51360)],
      saleAttachments = [(''/attachments/shopify-order-3403.pdf'', summary0)]\<rparr>],
    nextId = 3,
    calls = [GetCustomers, CreateCustomer ''Kari Nordmann'', SearchSale ''#3403'',
   CreateSale ''#3403'', AddSalePayment ''2'' ''1920:10001'' 51360,
   AttachFileToSale ''2'' ''shopify-order-3403.pdf'' summary0],
    fails = never_fails,
    customerCache = no_cache(''kari@example.no'' \<mapsto> customer1),
    console = [], now = ''2025-09-22T00:00:00Z'' \<rparr>"

text \<open>The state after the first run with a search that fails, and the empty ledger with a failing customer creation.\<close>

definition world1_search_down :: world where
  "world1_search_down = world1\<lparr>fails := search_fails\<rparr>"

definition world0_customer_down :: world where
  "world0_customer_down = world0\<lparr>fails := create_customer_fails\<rparr>"

section \<open>Auxiliary lemmas\<close>

subsection \<open>Rounding, sale lines and totals\<close>



lemma shipping_sale_lines_filter:
  "shipping_sale_lines cfg ss = map (shipping_line_of cfg) (filter (\<lambda>s. 0 < shipping_gross s) ss)"
  by (induction ss) auto







subsection \<open>Evaluation of the amounts of concrete orders\<close>

lemma floor_rat_numeral: "\<lfloor>numeral a / numeral b :: rat\<rfloor> = numeral a div numeral b"
  using floor_divide_of_int_eq [of "numeral a" "numeral b", where ?'a = rat] by simp

lemma ceiling_rat_numeral: "\<lceil>numeral a / numeral b :: rat\<rceil> = - (- numeral a div numeral b)"
  using ceiling_divide_eq_div [of "numeral a" "numeral b", where ?'a = rat] by simp

lemmas parse_simps = parseFloat_def is_digit_def is_space_def parse_digits_def digit_val_def

lemmas line_simps = buildSaleLines_def item_line_def shipping_line_of_def shipping_gross_def
  grossPerUnitOre_def netPerUnitOre_def item_quantity_def jsor_def stror_def Math_round_def Let_def
  floor_rat_numeral ceiling_rat_numeral

lemmas input_simps = cfg0_def cfg_dry_def cfg_full_vat_def cfg_fee_def item0_def item_quarter_def
  ship0_def ship_free_def order0_def order_quarter_def order_off_total_def order_empty_def

lemma lines0: "buildSaleLines cfg0 order0 =
  [\<lparr>description = ''Widget'', account = ''3000'', vatType = ''HIGH'',
     netPrice = 35968, netAmount = 35968, vat = 8992, vatAmount = 8992, quantity = 1\<rparr>,
   \<lparr>description = ''Posten'', account = ''3000'', vatType = ''HIGH'',
     netPrice = 5120, netAmount = 5120, vat = 1280, vatAmount = 1280, quantity = 1\<rparr>]"
  by (simp add: line_simps input_simps parse_simps)


subsection \<open>The steps of migrateOrder\<close>

lemma emit_fields [simp]:
  "calls (emit e w) = calls w" "sales (emit e w) = sales w" "fails (emit e w) = fails w"
  "customers (emit e w) = customers w" "now (emit e w) = now w" "nextId (emit e w) = nextId w"
  "customerCache (emit e w) = customerCache w" "console (emit e w) = console w @ [e]"
  by (simp_all add: emit_def)

lemma warnTotals_fields [simp]:
  "calls (warnTotals ord g w) = calls w" "sales (warnTotals ord g w) = sales w"
  "fails (warnTotals ord g w) = fails w" "now (warnTotals ord g w) = now w"
  "customers (warnTotals ord g w) = customers w" "nextId (warnTotals ord g w) = nextId w"
  "customerCache (warnTotals ord g w) = customerCache w"
  by (simp_all add: warnTotals_def)

lemma migrateOrder_steps:
  "migrateOrder cfg ord w =
     (case getOrCreateCustomer ord w of
        (Inl e, w1) \<Rightarrow> (Inl e, w1)
      | (Inr cust, w1) \<Rightarrow> afterCustomer cfg ord cust w1)"
  by (simp add: migrateOrder_def afterCustomer_def saleStep_def salePayload_def warnTotals_def
      shopifyGross_def sale_key_def summary_context_def Let_def
      split: prod.splits sum.splits option.splits)

subsection \<open>Requests sent and sales kept by each operation\<close>

lemma sale_keys_emit [simp]: "sale_keys (emit e w) = sale_keys w"
  by (simp add: sale_keys_def)

lemma sale_keys_warnTotals [simp]: "sale_keys (warnTotals ord g w) = sale_keys w"
  by (simp add: sale_keys_def)

lemma issued_append: "calls w' = calls w @ cs \<Longrightarrow> issued w w' = cs"
  by (simp add: issued_def)

lemma sbc_skip:
  "\<forall>c \<in> set cs. \<not> is_sale_call c \<Longrightarrow>
     searched_before_create seen (cs @ cs') = searched_before_create seen cs'"
proof (induction cs)
  case Nil
  then show ?case by simp
next
  case (Cons c cs)
  then show ?case by (cases c) simp_all
qed

lemma sbc_no_create:
  "\<forall>c \<in> set cs. \<not> is_create_sale c \<Longrightarrow> searched_before_create seen cs"
proof (induction cs arbitrary: seen)
  case Nil
  then show ?case by simp
next
  case (Cons c cs)
  then show ?case by (cases c) simp_all
qed

lemma map_key_update:
  "(\<And>s. g (f s) = g s) \<Longrightarrow> map g (map f xs) = map g xs"
  by (induction xs) auto

lemma filter_take1:
  "take 1 (filter P xs) = [] \<longleftrightarrow> filter P xs = []"
  by (cases "filter P xs") auto

lemma getCustomers_effect:
  "fiken_getCustomers w = (r, w1) \<Longrightarrow>
     calls w1 = calls w @ [GetCustomers] \<and> sale_keys w1 = sale_keys w \<and> fails w1 = fails w \<and> now w1 = now w"
  by (auto simp: fiken_getCustomers_def remote_call_def sale_keys_def split: if_splits)

lemma createCustomer_effect:
  "fiken_createCustomer p w = (r, w1) \<Longrightarrow>
     calls w1 = calls w @ [CreateCustomer (cp_name p)] \<and> sale_keys w1 = sale_keys w \<and> fails w1 = fails w
       \<and> now w1 = now w"
  by (auto simp: fiken_createCustomer_def remote_call_def Let_def sale_keys_def split: if_splits)

lemma createCustomer_result:
  "fiken_createCustomer p w = (Inl e, w1) \<Longrightarrow> e = RemoteFailure (CreateCustomer (cp_name p))"
  by (auto simp: fiken_createCustomer_def remote_call_def Let_def split: if_splits)

lemma getOrCreateCustomer_effect:
  assumes "getOrCreateCustomer ord w = (r, w1)"
  shows "sale_keys w1 = sale_keys w \<and> fails w1 = fails w \<and> now w1 = now w
       \<and> (\<exists>cs. calls w1 = calls w @ cs \<and> (\<forall>c \<in> set cs. \<not> is_sale_call c))"
  using assms
  by (auto simp: getOrCreateCustomer_def Let_def sale_keys_def
      split: option.splits if_splits prod.splits sum.splits
      dest!: getCustomers_effect createCustomer_effect)

lemma getOrCreateCustomer_error:
  "getOrCreateCustomer ord w = (Inl e, w1) \<Longrightarrow> e \<noteq> NoBillableLines"
  by (auto simp: getOrCreateCustomer_def Let_def
      split: option.splits if_splits prod.splits sum.splits
      dest!: createCustomer_result)

lemma searchSales_effect:
  "fiken_searchSales k w = (r, w1) \<Longrightarrow>
     calls w1 = calls w @ [SearchSale k] \<and> sale_keys w1 = sale_keys w \<and> fails w1 = fails w"
  by (auto simp: fiken_searchSales_def remote_call_def sale_keys_def split: if_splits)

lemma findSaleByNumber_effect:
  "findSaleByNumber k w = (r, w1) \<Longrightarrow>
     calls w1 = calls w @ [SearchSale k] \<and> sale_keys w1 = sale_keys w \<and> fails w1 = fails w"
  by (auto simp: findSaleByNumber_def split: prod.splits sum.splits dest!: searchSales_effect)

lemma findSaleByNumber_found:
  assumes "\<not> fails w (SearchSale k) (length (calls w))" and "0 < count_sales k w"
  shows "\<exists>s. fst (findSaleByNumber k w) = Some s"
proof -
  from assms(2) have "k \<in> set (sale_keys w)"
    using count_list_0_iff [of "sale_keys w" k] by (auto simp: count_sales_def)
  then have "filter (\<lambda>s. saleNumber (payload s) = k) (sales w) \<noteq> []"
    by (auto simp: sale_keys_def filter_empty_conv)
  then obtain s rest where "filter (\<lambda>s. saleNumber (payload s) = k) (sales w) = s # rest"
    by (cases "filter (\<lambda>s. saleNumber (payload s) = k) (sales w)") auto
  with assms(1) show ?thesis
    by (simp add: findSaleByNumber_def fiken_searchSales_def remote_call_def)
qed

lemma findSaleByNumber_none:
  assumes "\<not> fails w (SearchSale k) (length (calls w))" and "count_sales k w = 0"
  shows "fst (findSaleByNumber k w) = None"
proof -
  from assms(2) have "k \<notin> set (sale_keys w)"
    by (simp add: count_sales_def count_list_0_iff)
  then have "filter (\<lambda>s. saleNumber (payload s) = k) (sales w) = []"
    by (auto simp: sale_keys_def filter_empty_conv)
  with assms(1) show ?thesis
    by (simp add: findSaleByNumber_def fiken_searchSales_def remote_call_def)
qed

lemma createSale_effect:
  "fiken_createSale p w = (r, w1) \<Longrightarrow>
     calls w1 = calls w @ [CreateSale (saleNumber p)] \<and> fails w1 = fails w
       \<and> (case r of Inl e \<Rightarrow> sale_keys w1 = sale_keys w
                    | Inr s \<Rightarrow> sale_keys w1 = sale_keys w @ [saleNumber p])"
  by (auto simp: fiken_createSale_def remote_call_def Let_def sale_keys_def split: if_splits)

lemma addSalePayment_effect:
  "fiken_addSalePayment sid acc x w = (r, w1) \<Longrightarrow>
     calls w1 = calls w @ [AddSalePayment sid acc x] \<and> fails w1 = fails w
       \<and> sale_keys w1 = sale_keys w"
  by (auto simp: fiken_addSalePayment_def remote_call_def Let_def sale_keys_def map_key_update
      split: if_splits)

lemma attachFileToSale_effect:
  "fiken_attachFileToSale sid f d w = (r, w1) \<Longrightarrow>
     calls w1 = calls w @ [AttachFileToSale sid f d] \<and> fails w1 = fails w
       \<and> sale_keys w1 = sale_keys w"
  by (auto simp: fiken_attachFileToSale_def remote_call_def Let_def sale_keys_def map_key_update
      split: if_splits)

lemma attachOrderSummary_effect:
  "calls (attachOrderSummary ord sid ctx w)
       = calls w @ [AttachFileToSale sid (pdf_filename ord) (generateOrderPdf ord ctx)]
     \<and> fails (attachOrderSummary ord sid ctx w) = fails w
     \<and> sale_keys (attachOrderSummary ord sid ctx w) = sale_keys w"
  by (auto simp: attachOrderSummary_def split: prod.splits sum.splits dest!: attachFileToSale_effect)

lemma settlePayments_effect:
  "settlePayments cfg sid d g w = (r, w1) \<Longrightarrow>
     fails w1 = fails w \<and> sale_keys w1 = sale_keys w
       \<and> (\<exists>cs. calls w1 = calls w @ cs \<and> (\<forall>c \<in> set cs. \<not> is_sale_call c))"
  by (auto simp: settlePayments_def Let_def split: prod.splits sum.splits if_splits
      dest!: addSalePayment_effect)

lemma findSaleByNumber_some:
  assumes "findSaleByNumber k w = (Some s, w1)"
  shows "0 < count_sales k w"
proof -
  from assms have "filter (\<lambda>s. saleNumber (payload s) = k) (sales w) \<noteq> []"
    by (auto simp: findSaleByNumber_def fiken_searchSales_def remote_call_def
        split: if_splits list.splits)
  then obtain x where "x \<in> set (sales w)" and "saleNumber (payload x) = k"
    by (auto simp: filter_empty_conv)
  then have "k \<in> set (sale_keys w)"
    by (auto simp: sale_keys_def)
  then show ?thesis
    using count_list_0_iff [of "sale_keys w" k] by (auto simp: count_sales_def)
qed

lemma sbc_no_sale_calls:
  "\<forall>c \<in> set cs. \<not> is_sale_call c \<Longrightarrow> searched_before_create seen cs"
  using sbc_skip [of cs seen "[]"] by simp

lemma saleStep_calls:
  assumes "saleStep cfg ord p tot w = (r, w1)"
  shows "\<exists>rest. calls w1 = calls w @ SearchSale (saleNumber p) # rest
           \<and> searched_before_create [saleNumber p] rest"
  using assms attachOrderSummary_effect
  by (auto simp: saleStep_def sbc_no_sale_calls
      split: prod.splits sum.splits option.splits if_splits
      dest!: findSaleByNumber_effect createSale_effect settlePayments_effect)

lemma saleStep_fails:
  assumes "saleStep cfg ord p tot w = (r, w1)"
  shows "fails w1 = fails w"
  using assms attachOrderSummary_effect
  by (auto simp: saleStep_def
      split: prod.splits sum.splits option.splits if_splits
      dest!: findSaleByNumber_effect createSale_effect settlePayments_effect)

lemma saleStep_keys:
  assumes "saleStep cfg ord p tot w = (r, w1)"
  shows "sale_keys w1 = sale_keys w \<or> sale_keys w1 = sale_keys w @ [saleNumber p]"
  using assms attachOrderSummary_effect
  by (auto simp: saleStep_def
      split: prod.splits sum.splits option.splits if_splits
      dest!: findSaleByNumber_effect createSale_effect settlePayments_effect)

lemma saleStep_existing:
  assumes "saleStep cfg ord p tot w = (r, w1)"
    and "\<not> fails w (SearchSale (saleNumber p)) (length (calls w))"
    and "0 < count_sales (saleNumber p) w"
  shows "r = Inr () \<and> sale_keys w1 = sale_keys w
       \<and> (\<exists>rest. calls w1 = calls w @ SearchSale (saleNumber p) # rest
                \<and> (\<forall>c \<in> set rest. \<not> is_create_sale c))"
proof -
  from findSaleByNumber_found [OF assms(2,3)] obtain s w3
    where f: "findSaleByNumber (saleNumber p) w = (Some s, w3)"
    by (cases "findSaleByNumber (saleNumber p) w") auto
  from findSaleByNumber_effect [OF f] assms(1) f attachOrderSummary_effect [where ord = ord and sid = "saleId s" and w = w3]
  show ?thesis
    by (auto simp: saleStep_def split: if_splits)
qed

lemma saleStep_success:
  assumes "saleStep cfg ord p tot w = (Inr u, w1)"
  shows "0 < count_sales (saleNumber p) w1"
proof (cases "findSaleByNumber (saleNumber p) w")
  case (Pair found w3)
  show ?thesis
  proof (cases found)
    case (Some s)
    with Pair have "0 < count_sales (saleNumber p) w"
      by (auto dest: findSaleByNumber_some)
    moreover from assms Pair Some attachOrderSummary_effect [where ord = ord and sid = "saleId s" and w = w3]
      findSaleByNumber_effect [OF Pair]
    have "sale_keys w1 = sale_keys w"
      by (auto simp: saleStep_def split: if_splits)
    ultimately show ?thesis by (simp add: count_sales_def)
  next
    case None
    with assms Pair attachOrderSummary_effect show ?thesis
      by (auto simp: saleStep_def count_sales_def
          split: prod.splits sum.splits if_splits
          dest!: createSale_effect settlePayments_effect)
  qed
qed

lemma salePayload_number [simp]: "saleNumber (salePayload cfg ord custId w) = sale_key ord"
  by (simp add: salePayload_def)

lemma afterCustomer_calls:
  assumes "afterCustomer cfg ord cust w = (r, w1)"
  shows "\<exists>rest. calls w1 = calls w @ rest \<and> searched_before_create [] rest"
  using assms
  by (auto simp: afterCustomer_def Let_def split: if_splits dest!: saleStep_calls)

lemma afterCustomer_fails:
  assumes "afterCustomer cfg ord cust w = (r, w1)"
  shows "fails w1 = fails w"
  using assms
  by (auto simp: afterCustomer_def Let_def split: if_splits dest!: saleStep_fails)

lemma afterCustomer_keys:
  assumes "afterCustomer cfg ord cust w = (r, w1)"
  shows "sale_keys w1 = sale_keys w \<or> sale_keys w1 = sale_keys w @ [sale_key ord]"
  using assms
  by (auto simp: afterCustomer_def Let_def split: if_splits dest!: saleStep_keys)

lemma afterCustomer_existing:
  assumes "afterCustomer cfg ord cust w = (r, w1)"
    and "\<forall>n. \<not> fails w (SearchSale (sale_key ord)) n"
    and "0 < count_sales (sale_key ord) w"
  shows "sale_keys w1 = sale_keys w
       \<and> (\<exists>rest. calls w1 = calls w @ rest \<and> (\<forall>c \<in> set rest. \<not> is_create_sale c))"
proof (cases "stror (contactId cust) (customerId cust) = [] \<or> buildSaleLines cfg ord = [] \<or> dryRun cfg")
  case True
  with assms(1) show ?thesis
    by (auto simp: afterCustomer_def Let_def split: if_splits)
next
  case False
  define tot where "tot = calculateTotals (buildSaleLines cfg ord)"
  define g where "g = gross tot"
  define p where "p = salePayload cfg ord (stror (contactId cust) (customerId cust)) w"
  from False assms(1) have s: "saleStep cfg ord p tot (warnTotals ord g w) = (r, w1)"
    by (simp add: afterCustomer_def Let_def g_def tot_def p_def)
  have "\<not> fails (warnTotals ord g w) (SearchSale (saleNumber p)) (length (calls (warnTotals ord g w)))"
    using assms(2) by (simp add: p_def)
  moreover have "0 < count_sales (saleNumber p) (warnTotals ord g w)"
    using assms(3) by (simp add: p_def count_sales_def)
  ultimately show ?thesis
    using saleStep_existing [OF s] by (auto simp: p_def)
qed

lemma afterCustomer_success:
  assumes "afterCustomer cfg ord cust w = (Inr u, w1)" and "\<not> dryRun cfg"
  shows "0 < count_sales (sale_key ord) w1"
  using assms
  by (auto simp: afterCustomer_def Let_def split: if_splits dest!: saleStep_success)

lemma migrateOrder_calls:
  "searched_before_create [] (issued w (snd (migrateOrder cfg ord w)))"
proof (cases "getOrCreateCustomer ord w")
  case (Pair r w1)
  from getOrCreateCustomer_effect [OF Pair] obtain cs
    where cs: "calls w1 = calls w @ cs" "\<forall>c \<in> set cs. \<not> is_sale_call c"
    by auto
  show ?thesis
  proof (cases r)
    case (Inl e)
    with Pair cs show ?thesis
      by (simp add: migrateOrder_steps issued_def sbc_no_sale_calls)
  next
    case (Inr cust)
    obtain r2 w2 where a: "afterCustomer cfg ord cust w1 = (r2, w2)"
      by (cases "afterCustomer cfg ord cust w1") auto
    from afterCustomer_calls [OF a] obtain rest
      where "calls w2 = calls w1 @ rest" "searched_before_create [] rest"
      by auto
    with Pair Inr a cs show ?thesis
      by (simp add: migrateOrder_steps issued_def sbc_skip)
  qed
qed

lemma migrateOrder_fails: "fails (snd (migrateOrder cfg ord w)) = fails w"
proof (cases "getOrCreateCustomer ord w")
  case (Pair r w1)
  with getOrCreateCustomer_effect [OF Pair] show ?thesis
    by (cases r; cases "afterCustomer cfg ord (projr r) w1")
      (auto simp: migrateOrder_steps dest: afterCustomer_fails)
qed

lemma migrateOrder_keys:
  "sale_keys (snd (migrateOrder cfg ord w)) = sale_keys w
     \<or> sale_keys (snd (migrateOrder cfg ord w)) = sale_keys w @ [sale_key ord]"
proof (cases "getOrCreateCustomer ord w")
  case (Pair r w1)
  with getOrCreateCustomer_effect [OF Pair] show ?thesis
    by (cases r; cases "afterCustomer cfg ord (projr r) w1")
      (auto simp: migrateOrder_steps dest: afterCustomer_keys)
qed

lemma migrateOrder_existing:
  assumes "\<forall>n. \<not> fails w (SearchSale (sale_key ord)) n"
    and "0 < count_sales (sale_key ord) w"
  shows "sale_keys (snd (migrateOrder cfg ord w)) = sale_keys w
       \<and> (\<forall>c \<in> set (issued w (snd (migrateOrder cfg ord w))). \<not> is_create_sale c)"
proof (cases "getOrCreateCustomer ord w")
  case (Pair r w1)
  from getOrCreateCustomer_effect [OF Pair] obtain cs
    where eff: "sale_keys w1 = sale_keys w" "fails w1 = fails w"
      and cs: "calls w1 = calls w @ cs" "\<forall>c \<in> set cs. \<not> is_sale_call c"
    by auto
  have nc: "\<not> is_create_sale c" if "c \<in> set cs" for c
    using cs(2) that by (cases c) auto
  show ?thesis
  proof (cases r)
    case (Inl e)
    with Pair eff cs nc show ?thesis
      by (auto simp: migrateOrder_steps issued_def)
  next
    case (Inr cust)
    obtain r2 w2 where a: "afterCustomer cfg ord cust w1 = (r2, w2)"
      by (cases "afterCustomer cfg ord cust w1") auto
    have "\<forall>n. \<not> fails w1 (SearchSale (sale_key ord)) n"
      using assms(1) eff by simp
    moreover have "0 < count_sales (sale_key ord) w1"
      using assms(2) eff by (simp add: count_sales_def)
    ultimately obtain rest where "sale_keys w2 = sale_keys w1"
      "calls w2 = calls w1 @ rest" "\<forall>c \<in> set rest. \<not> is_create_sale c"
      using afterCustomer_existing [OF a] by auto
    with Pair Inr a eff cs nc show ?thesis
      by (auto simp: migrateOrder_steps issued_def)
  qed
qed

lemma migrateOrder_success:
  assumes "fst (migrateOrder cfg ord w) = Inr ()" and "\<not> dryRun cfg"
  shows "0 < count_sales (sale_key ord) (snd (migrateOrder cfg ord w))"
proof (cases "getOrCreateCustomer ord w")
  case (Pair r w1)
  with assms show ?thesis
    by (cases r; cases "afterCustomer cfg ord (projr r) w1")
      (auto simp: migrateOrder_steps dest: afterCustomer_success)
qed

lemma getOrCreateCustomer_calls:
  assumes "getOrCreateCustomer ord w = (r, w1)"
  shows "\<exists>cs. calls w1 = calls w @ cs \<and> (\<forall>c \<in> set cs. is_customer_call c)"
  using assms
  by (auto simp: getOrCreateCustomer_def Let_def
      split: option.splits if_splits prod.splits sum.splits
      dest!: getCustomers_effect createCustomer_effect)

text \<open>A dry run sends no request but those of the customer step, and adds no sale.\<close>

lemma dry_run_customer_requests_only:
  assumes "dryRun cfg"
  shows "sale_keys (snd (migrateOrder cfg ord w)) = sale_keys w
       \<and> (\<forall>c \<in> set (issued w (snd (migrateOrder cfg ord w))). is_customer_call c)"
proof (cases "getOrCreateCustomer ord w")
  case (Pair r w1)
  from getOrCreateCustomer_calls [OF Pair] obtain cs
    where cs: "calls w1 = calls w @ cs" "\<forall>c \<in> set cs. is_customer_call c"
    by auto
  from getOrCreateCustomer_effect [OF Pair] have k: "sale_keys w1 = sale_keys w"
    by simp
  from assms have a: "calls (snd (afterCustomer cfg ord c w1)) = calls w1
      \<and> sale_keys (snd (afterCustomer cfg ord c w1)) = sale_keys w1" for c
    by (simp add: afterCustomer_def Let_def)
  from Pair cs k a show ?thesis
    by (cases r) (auto simp: migrateOrder_steps issued_def)
qed

subsection \<open>Evaluation of concrete runs\<close>

lemmas string_simps = String_nat.simps digit_char_def toLowerCase_def lower_char_def trim_def
  order_ref_def pdf_filename_def sale_key_def customer_name_def getCustomerKey_def is_space_def

lemmas remote_simps = remote_call_def emit_def fiken_getCustomers_def fiken_createCustomer_def
  fiken_searchSales_def fiken_createSale_def fiken_addSalePayment_def fiken_attachFileToSale_def

lemmas flow_simps = migrateOrder_steps afterCustomer_def saleStep_def getOrCreateCustomer_def
  findSaleByNumber_def attachOrderSummary_def settlePayments_def bankPaymentAmount_def
  computeFeeAmount_def computedFee_def salePayload_def warnTotals_def shopifyGross_def toOre_def
  generateOrderPdf_def summary_context_def stror_def jsor_def Let_def

lemmas world_simps = never_fails_def search_fails_def create_customer_fails_def no_cache_def

lemma totals0: "calculateTotals (buildSaleLines cfg0 order0) = \<lparr>net = 41088, vat_total = 10272, gross = 51360\<rparr>"
  by (simp add: lines0 calculateTotals_def)

lemma order0_fields:
  "order_number order0 = 3403" "order_id order0 = 77" "customer_email order0 = ''Kari@Example.no''"
  "customer_first_name order0 = ''Kari''" "customer_last_name order0 = ''Nordmann''"
  "customer_company order0 = []" "shipping_first_name order0 = []" "shipping_last_name order0 = []"
  "shipping_name order0 = []" "has_billing_address order0 = False"
  "total_price order0 = JStr ''513.60''" "current_total_price order0 = JUndefined"
  "processed_at order0 = ''2025-09-21T10:00:00+02:00''" "created_at order0 = []"
  by (simp_all add: order0_def)

lemma cfg0_fields:
  "dryRun cfg0 = False" "vatRate cfg0 = 1 / 4" "bankAccount cfg0 = ''1920:10001''"
  "salesAccount cfg0 = ''3000''" "shippingAccount cfg0 = ''3000''" "feeAccount cfg0 = ''7770''"
  "feePercent cfg0 = 0" "feeAmountFixed cfg0 = 0"
  by (simp_all add: cfg0_def)

lemma lines0_ne: "buildSaleLines cfg0 order0 \<noteq> []"
  by (simp add: lines0)

lemmas eval_simps = flow_simps remote_simps string_simps world_simps parseFloat_def is_digit_def
  parse_digits_def digit_val_def Math_round_def floor_rat_numeral

lemma run0: "migrateOrder cfg0 order0 world0 = (Inr (), world1)"
  by (simp add: eval_simps world0_def world1_def summary0_def customer1_def order0_fields
      cfg0_fields totals0 lines0_ne)

subsection \<open>Operations do not read what has been printed\<close>

lemma same_ledger_refl [simp]: "same_ledger w w"
  by (simp add: same_ledger_def)

lemma same_ledger_emit: "same_ledger w w' \<Longrightarrow> same_ledger (emit e w) w'"
  "same_ledger w w' \<Longrightarrow> same_ledger w (emit e w')"
  by (simp_all add: same_ledger_def)

lemma same_ledger_warnTotals: "same_ledger (warnTotals ord g w) w" 
  by (simp add: same_ledger_def)

lemma searchSales_same:
  "same_ledger w w' \<Longrightarrow>
     fst (fiken_searchSales k w) = fst (fiken_searchSales k w')
       \<and> same_ledger (snd (fiken_searchSales k w)) (snd (fiken_searchSales k w'))"
  by (simp add: same_ledger_def fiken_searchSales_def remote_call_def)

lemma findSaleByNumber_same:
  assumes "same_ledger w w'"
  shows "fst (findSaleByNumber k w) = fst (findSaleByNumber k w')
       \<and> same_ledger (snd (findSaleByNumber k w)) (snd (findSaleByNumber k w'))"
  using searchSales_same [OF assms, of k]
  by (cases "fiken_searchSales k w"; cases "fiken_searchSales k w'")
    (auto simp: findSaleByNumber_def same_ledger_emit split: sum.splits)

lemma createSale_same:
  "same_ledger w w' \<Longrightarrow>
     fst (fiken_createSale p w) = fst (fiken_createSale p w')
       \<and> same_ledger (snd (fiken_createSale p w)) (snd (fiken_createSale p w'))"
  by (simp add: same_ledger_def fiken_createSale_def remote_call_def Let_def)

lemma addSalePayment_same:
  "same_ledger w w' \<Longrightarrow>
     fst (fiken_addSalePayment sid a x w) = fst (fiken_addSalePayment sid a x w')
       \<and> same_ledger (snd (fiken_addSalePayment sid a x w)) (snd (fiken_addSalePayment sid a x w'))"
  by (simp add: same_ledger_def fiken_addSalePayment_def remote_call_def Let_def)

lemma sale_records_attach:
  "sale_records (attachOrderSummary ord sid ctx w) = sale_records w"
  by (simp add: attachOrderSummary_def fiken_attachFileToSale_def remote_call_def sale_records_def
      sale_record_def emit_def Let_def comp_def)

lemma same_ledger_records: "same_ledger w w' \<Longrightarrow> sale_records w = sale_records w'"
  by (simp add: same_ledger_def sale_records_def)

lemma settlePayments_same:
  assumes "same_ledger w w'"
  shows "fst (settlePayments cfg sid d g w) = fst (settlePayments cfg sid d g w')
       \<and> same_ledger (snd (settlePayments cfg sid d g w)) (snd (settlePayments cfg sid d g w'))"
proof -
  let ?bank = "fiken_addSalePayment sid (bankAccount cfg) (bankPaymentAmount cfg g)"
  have step: "fst (fiken_addSalePayment sid (feeAccount cfg) x v) = fst (fiken_addSalePayment sid (feeAccount cfg) x v')
       \<and> same_ledger (snd (fiken_addSalePayment sid (feeAccount cfg) x v)) (snd (fiken_addSalePayment sid (feeAccount cfg) x v'))"
    if "same_ledger v v'" for v v' x
    using that by (rule addSalePayment_same)
  show ?thesis
  proof (cases "0 < bankPaymentAmount cfg g")
    case True
    from addSalePayment_same [OF assms, of sid "bankAccount cfg" "bankPaymentAmount cfg g"]
    have b: "fst (?bank w) = fst (?bank w')" "same_ledger (snd (?bank w)) (snd (?bank w'))"
      by auto
    from True b step [OF b(2)] show ?thesis
      by (cases "?bank w"; cases "?bank w'")
        (auto simp: settlePayments_def Let_def split: sum.splits)
  next
    case False
    with assms step [OF assms] show ?thesis
      by (auto simp: settlePayments_def Let_def)
  qed
qed

lemma saleStep_same:
  assumes "same_ledger w w'" and "pdf_filename ord1 = pdf_filename ord2"
  shows "fst (saleStep cfg ord1 p tot w) = fst (saleStep cfg ord2 p tot w')
       \<and> sale_records (snd (saleStep cfg ord1 p tot w))
           = sale_records (snd (saleStep cfg ord2 p tot w'))"
proof -
  obtain f w3 where a: "findSaleByNumber (saleNumber p) w = (f, w3)"
    by (cases "findSaleByNumber (saleNumber p) w") auto
  obtain f' w3' where a': "findSaleByNumber (saleNumber p) w' = (f', w3')"
    by (cases "findSaleByNumber (saleNumber p) w'") auto
  from findSaleByNumber_same [OF assms(1), of "saleNumber p"] a a'
  have ff: "f' = f" and s3: "same_ledger w3 w3'" by auto
  show ?thesis
  proof (cases f)
    case (Some s)
    with a a' ff assms(2) same_ledger_records [OF s3] show ?thesis
      by (auto simp: saleStep_def sale_records_attach)
  next
    case None
    obtain c w4 where b: "fiken_createSale p w3 = (c, w4)"
      by (cases "fiken_createSale p w3") auto
    obtain c' w4' where b': "fiken_createSale p w3' = (c', w4')"
      by (cases "fiken_createSale p w3'") auto
    from createSale_same [OF s3, of p] b b'
    have cc: "c' = c" and s4: "same_ledger w4 w4'" by auto
    show ?thesis
    proof (cases c)
      case (Inl e)
      with None a a' ff b b' cc same_ledger_records [OF s4] show ?thesis
        by (simp add: saleStep_def)
    next
      case (Inr created)
      obtain r w5 where d: "settlePayments cfg (saleId created) (date p) (gross tot) w4 = (r, w5)"
        by (cases "settlePayments cfg (saleId created) (date p) (gross tot) w4") auto
      obtain r' w5' where d': "settlePayments cfg (saleId created) (date p) (gross tot) w4' = (r', w5')"
        by (cases "settlePayments cfg (saleId created) (date p) (gross tot) w4'") auto
      from settlePayments_same [OF s4, of cfg "saleId created" "date p" "gross tot"] d d'
      have rr: "r' = r" and s5: "same_ledger w5 w5'" by auto
      from None a a' ff b b' cc Inr d d' rr same_ledger_records [OF s5] show ?thesis
        by (cases r) (auto simp: saleStep_def sale_records_attach)
    qed
  qed
qed

lemma same_ledger_sym: "same_ledger w w' \<Longrightarrow> same_ledger w' w"
  by (simp add: same_ledger_def)

lemma same_ledger_trans: "same_ledger w w' \<Longrightarrow> same_ledger w' w'' \<Longrightarrow> same_ledger w w''"
  by (simp add: same_ledger_def)

lemma total_price_strings [simp]:
  "customer_name (ord\<lparr>total_price := t, current_total_price := t'\<rparr>) = customer_name ord"
  "getCustomerKey (ord\<lparr>total_price := t, current_total_price := t'\<rparr>) = getCustomerKey ord"
  "order_ref (ord\<lparr>total_price := t, current_total_price := t'\<rparr>) = order_ref ord"
  by (simp_all add: customer_name_def getCustomerKey_def order_ref_def)

lemma total_price_filename [simp]:
  "pdf_filename (ord\<lparr>total_price := t, current_total_price := t'\<rparr>) = pdf_filename ord"
  by (simp add: pdf_filename_def)

lemma sale_records_printed [simp]:
  "sale_records (emit e w) = sale_records w" "sale_records (warnTotals ord g w) = sale_records w"
  by (simp_all add: sale_records_def)

lemma total_price_irrelevant [simp]:
  "buildSaleLines cfg (ord\<lparr>total_price := t, current_total_price := t'\<rparr>) = buildSaleLines cfg ord"
  "getOrCreateCustomer (ord\<lparr>total_price := t, current_total_price := t'\<rparr>) = getOrCreateCustomer ord"
  "salePayload cfg (ord\<lparr>total_price := t, current_total_price := t'\<rparr>) = salePayload cfg ord"
  by (simp_all add: buildSaleLines_def getOrCreateCustomer_def salePayload_def sale_key_def
      fun_eq_iff Let_def
      cong: option.case_cong prod.case_cong sum.case_cong if_cong)

lemma afterCustomer_total_price:
  "fst (afterCustomer cfg (ord\<lparr>total_price := t, current_total_price := t'\<rparr>) cust w)
     = fst (afterCustomer cfg ord cust w)
   \<and> sale_records (snd (afterCustomer cfg (ord\<lparr>total_price := t, current_total_price := t'\<rparr>) cust w))
       = sale_records (snd (afterCustomer cfg ord cust w))"
proof -
  let ?ord' = "ord\<lparr>total_price := t, current_total_price := t'\<rparr>"
  let ?tot = "calculateTotals (buildSaleLines cfg ord)"
  let ?g = "gross ?tot"
  have "same_ledger (warnTotals ?ord' ?g w) (warnTotals ord ?g w)"
    by (simp add: same_ledger_def)
  moreover have "pdf_filename ?ord' = pdf_filename ord"
    by simp
  ultimately have sl:
    "fst (saleStep cfg ?ord' p ?tot (warnTotals ?ord' ?g w))
       = fst (saleStep cfg ord p ?tot (warnTotals ord ?g w))
     \<and> sale_records (snd (saleStep cfg ?ord' p ?tot (warnTotals ?ord' ?g w)))
         = sale_records (snd (saleStep cfg ord p ?tot (warnTotals ord ?g w)))" for p
    by (rule saleStep_same)
  have sp2: "salePayload cfg ord c (warnTotals o2 ?g w) = salePayload cfg ord c w" for c o2
    by (simp add: salePayload_def)
  show ?thesis
    using sl by (simp add: afterCustomer_def Let_def sp2)
qed

lemma console_remote:
  "console (snd (fiken_searchSales k w)) = console w"
  "console (snd (fiken_createSale p w)) = console w"
  "console (snd (fiken_addSalePayment sid a x w)) = console w"
  "console (snd (fiken_attachFileToSale sid f d w)) = console w"
  by (simp_all add: fiken_searchSales_def fiken_createSale_def fiken_addSalePayment_def
      fiken_attachFileToSale_def remote_call_def Let_def)

lemma console_findSaleByNumber: "set (console w) \<subseteq> set (console (snd (findSaleByNumber k w)))"
  using console_remote(1) [of k w]
  by (cases "fiken_searchSales k w") (auto simp: findSaleByNumber_def emit_def split: sum.splits)

lemma console_attachOrderSummary:
  "set (console w) \<subseteq> set (console (attachOrderSummary ord sid ctx w))"
  using console_remote(4) [of sid "pdf_filename ord" "generateOrderPdf ord ctx" w]
  by (cases "fiken_attachFileToSale sid (pdf_filename ord) (generateOrderPdf ord ctx) w")
    (auto simp: attachOrderSummary_def emit_def split: sum.splits)

lemma console_settlePayments: "console (snd (settlePayments cfg sid d g w)) = console w"
proof -
  let ?bank = "fiken_addSalePayment sid (bankAccount cfg) (bankPaymentAmount cfg g) w"
  have "console (snd (fiken_addSalePayment sid (feeAccount cfg) x (snd ?bank))) = console w" for x
    by (simp add: console_remote)
  then show ?thesis
    using console_remote(3) [of sid "bankAccount cfg" "bankPaymentAmount cfg g" w]
      console_remote(3) [of sid "feeAccount cfg" "computeFeeAmount cfg g" w]
    by (cases ?bank) (auto simp: settlePayments_def Let_def split: sum.splits)
qed

lemma console_saleStep: "set (console w) \<subseteq> set (console (snd (saleStep cfg ord p tot w)))"
proof -
  obtain f w3 where a: "findSaleByNumber (saleNumber p) w = (f, w3)"
    by (cases "findSaleByNumber (saleNumber p) w") auto
  with console_findSaleByNumber [of w "saleNumber p"] have c3: "set (console w) \<subseteq> set (console w3)"
    by simp
  show ?thesis
  proof (cases f)
    case (Some s)
    with a c3 console_attachOrderSummary [where w = w3 and ord = ord and sid = "saleId s"] show ?thesis
      by (auto simp: saleStep_def)
  next
    case None
    obtain c w4 where b: "fiken_createSale p w3 = (c, w4)"
      by (cases "fiken_createSale p w3") auto
    with console_remote(2) [of p w3] have c4: "console w4 = console w3" by simp
    show ?thesis
    proof (cases c)
      case (Inl e)
      with None a b c3 c4 show ?thesis by (simp add: saleStep_def)
    next
      case (Inr created)
      obtain r w5 where d: "settlePayments cfg (saleId created) (date p) (gross tot) w4 = (r, w5)"
        by (cases "settlePayments cfg (saleId created) (date p) (gross tot) w4") auto
      with console_settlePayments [of cfg "saleId created" "date p" "gross tot" w4]
      have c5: "console w5 = console w4" by simp
      from None a b Inr d c3 c4 c5
        console_attachOrderSummary [where w = w5 and ord = ord and sid = "saleId created"]
      show ?thesis
        by (cases r) (auto simp: saleStep_def)
    qed
  qed
qed

lemma afterCustomer_warns:
  assumes "stror (contactId cust) (customerId cust) \<noteq> []" and "buildSaleLines cfg ord \<noteq> []"
    and "2 < \<bar>shopifyGross ord (gross (calculateTotals (buildSaleLines cfg ord)))
              - gross (calculateTotals (buildSaleLines cfg ord))\<bar>"
  shows "WarnTotalsDiffer ((shopifyGross ord (gross (calculateTotals (buildSaleLines cfg ord)))
              - gross (calculateTotals (buildSaleLines cfg ord))) / 100)
           \<in> set (console (snd (afterCustomer cfg ord cust w)))"
proof -
  let ?g = "gross (calculateTotals (buildSaleLines cfg ord))"
  let ?e = "WarnTotalsDiffer ((shopifyGross ord ?g - ?g) / 100)"
  from assms(3) have "?e \<in> set (console (warnTotals ord ?g w))"
    by (simp add: warnTotals_def)
  with console_saleStep [of "warnTotals ord ?g w" cfg ord] assms(1,2) show ?thesis
    by (auto simp: afterCustomer_def Let_def)
qed

subsection \<open>Settlement and errors\<close>

lemma addSalePayment_ok:
  "\<not> fails w (AddSalePayment sid a x) (length (calls w)) \<Longrightarrow>
     fst (fiken_addSalePayment sid a x w) = Inr ()
       \<and> calls (snd (fiken_addSalePayment sid a x w)) = calls w @ [AddSalePayment sid a x]
       \<and> fails (snd (fiken_addSalePayment sid a x w)) = fails w"
  by (simp add: fiken_addSalePayment_def remote_call_def)

lemma settlePayments_issued:
  assumes "\<forall>a x n. \<not> fails w (AddSalePayment sid a x) n"
  shows "issued w (snd (settlePayments cfg sid d g w)) =
           (if 0 < bankPaymentAmount cfg g
            then [AddSalePayment sid (bankAccount cfg) (bankPaymentAmount cfg g)] else []) @
           (if 0 < computeFeeAmount cfg g
            then [AddSalePayment sid (feeAccount cfg) (computeFeeAmount cfg g)] else [])"
proof -
  let ?b = "fiken_addSalePayment sid (bankAccount cfg) (bankPaymentAmount cfg g) w"
  from assms have b: "fst ?b = Inr ()"
    "calls (snd ?b) = calls w @ [AddSalePayment sid (bankAccount cfg) (bankPaymentAmount cfg g)]"
    "fails (snd ?b) = fails w"
    using addSalePayment_ok [of w sid "bankAccount cfg" "bankPaymentAmount cfg g"] by auto
  from assms b(3) have f1: 
    "calls (snd (fiken_addSalePayment sid (feeAccount cfg) (computeFeeAmount cfg g) (snd ?b)))
       = calls (snd ?b) @ [AddSalePayment sid (feeAccount cfg) (computeFeeAmount cfg g)]"
    using addSalePayment_ok [of "snd ?b" sid "feeAccount cfg" "computeFeeAmount cfg g"] by auto
  from assms have f0: 
    "calls (snd (fiken_addSalePayment sid (feeAccount cfg) (computeFeeAmount cfg g) w))
       = calls w @ [AddSalePayment sid (feeAccount cfg) (computeFeeAmount cfg g)]"
    using addSalePayment_ok [of w sid "feeAccount cfg" "computeFeeAmount cfg g"] by auto
  show ?thesis
    using b f1 f0
    by (cases ?b) (auto simp: settlePayments_def Let_def issued_def)
qed

lemma remote_errors:
  "fiken_createSale p w = (Inl e, w1) \<Longrightarrow> e \<noteq> NoBillableLines"
  "fiken_addSalePayment sid a x w = (Inl e, w1) \<Longrightarrow> e \<noteq> NoBillableLines"
  by (auto simp: fiken_createSale_def fiken_addSalePayment_def remote_call_def Let_def split: if_splits)

lemma settlePayments_error:
  "settlePayments cfg sid d g w = (Inl e, w1) \<Longrightarrow> e \<noteq> NoBillableLines"
  by (auto simp: settlePayments_def Let_def split: if_splits prod.splits sum.splits
      dest: remote_errors)

lemma saleStep_error:
  "saleStep cfg ord p tot w = (Inl e, w1) \<Longrightarrow> e \<noteq> NoBillableLines"
  by (auto simp: saleStep_def split: if_splits prod.splits sum.splits option.splits
      dest: remote_errors settlePayments_error)

lemma afterCustomer_no_lines:
  "fst (afterCustomer cfg ord cust w) = Inl NoBillableLines
     \<longleftrightarrow> stror (contactId cust) (customerId cust) \<noteq> [] \<and> buildSaleLines cfg ord = []"
proof (cases "saleStep cfg ord (salePayload cfg ord (stror (contactId cust) (customerId cust)) w)
      (calculateTotals (buildSaleLines cfg ord))
      (warnTotals ord (gross (calculateTotals (buildSaleLines cfg ord))) w)")
  case (Pair r w1)
  then show ?thesis
    by (cases r) (auto simp: afterCustomer_def Let_def dest: saleStep_error)
qed

subsection \<open>A run whose requests are all answered\<close>

lemma settlePayments_answered:
  assumes "\<forall>c n. \<not> fails w c n"
  shows "fst (settlePayments cfg sid d g w) = Inr ()"
proof -
  let ?b = "fiken_addSalePayment sid (bankAccount cfg) (bankPaymentAmount cfg g) w"
  from assms have b: "fst ?b = Inr ()" "fails (snd ?b) = fails w"
    using addSalePayment_ok [of w sid "bankAccount cfg" "bankPaymentAmount cfg g"] by auto
  from assms b(2) have f1:
    "fst (fiken_addSalePayment sid (feeAccount cfg) (computeFeeAmount cfg g) (snd ?b)) = Inr ()"
    using addSalePayment_ok [of "snd ?b" sid "feeAccount cfg" "computeFeeAmount cfg g"] by auto
  from assms have f0:
    "fst (fiken_addSalePayment sid (feeAccount cfg) (computeFeeAmount cfg g) w) = Inr ()"
    using addSalePayment_ok [of w sid "feeAccount cfg" "computeFeeAmount cfg g"] by auto
  show ?thesis
    using b f1 f0 by (cases ?b) (auto simp: settlePayments_def Let_def)
qed

lemma saleStep_answered:
  assumes "\<forall>c n. \<not> fails w c n" and "count_sales (saleNumber p) w = 0"
  shows "fst (saleStep cfg ord p tot w) = Inr ()"
proof -
  from assms have "fst (findSaleByNumber (saleNumber p) w) = None"
    by (simp add: findSaleByNumber_none)
  then obtain w3 where a: "findSaleByNumber (saleNumber p) w = (None, w3)"
    by (cases "findSaleByNumber (saleNumber p) w") auto
  from findSaleByNumber_effect [OF a] assms(1) have f3: "\<forall>c n. \<not> fails w3 c n"
    by simp
  then obtain created w4 where b: "fiken_createSale p w3 = (Inr created, w4)"
    by (simp add: fiken_createSale_def remote_call_def Let_def)
  from createSale_effect [OF b] f3 have "\<forall>c n. \<not> fails w4 c n"
    by simp
  then have "fst (settlePayments cfg (saleId created) (date p) (gross tot) w4) = Inr ()"
    by (rule settlePayments_answered)
  with a b show ?thesis
    by (cases "settlePayments cfg (saleId created) (date p) (gross tot) w4")
      (simp add: saleStep_def)
qed

lemma migrateOrder_answered:
  assumes "\<forall>c n. \<not> fails w c n"
    and "fst (getOrCreateCustomer ord w) = Inr cust"
    and "stror (contactId cust) (customerId cust) \<noteq> []"
    and "buildSaleLines cfg ord \<noteq> []"
    and "\<not> dryRun cfg"
    and "count_sales (sale_key ord) w = 0"
  shows "fst (migrateOrder cfg ord w) = Inr ()
       \<and> count_sales (sale_key ord) (snd (migrateOrder cfg ord w)) = 1"
proof -
  obtain w1 where c: "getOrCreateCustomer ord w = (Inr cust, w1)"
    using assms(2) by (cases "getOrCreateCustomer ord w") auto
  let ?tot = "calculateTotals (buildSaleLines cfg ord)"
  let ?w2 = "warnTotals ord (gross ?tot) w1"
  let ?p = "salePayload cfg ord (stror (contactId cust) (customerId cust)) w1"
  from getOrCreateCustomer_effect [OF c] assms(1,6)
  have "\<forall>c n. \<not> fails ?w2 c n" and "count_sales (saleNumber ?p) ?w2 = 0"
    by (simp_all add: count_sales_def)
  then have "fst (saleStep cfg ord ?p ?tot ?w2) = Inr ()"
    by (rule saleStep_answered)
  with c assms(3,4,5) have ok: "fst (migrateOrder cfg ord w) = Inr ()"
    by (simp add: migrateOrder_steps afterCustomer_def Let_def)
  from migrateOrder_success [OF ok assms(5)] migrateOrder_keys [of cfg ord w] assms(6)
  have "count_sales (sale_key ord) (snd (migrateOrder cfg ord w)) = 1"
    by (auto simp: count_sales_def)
  with ok show ?thesis by simp
qed

subsection \<open>One request of the ledger client\<close>

lemma call_once:
  "(let (out, cl1) = client_request rq cl
    in case out of Resolved r \<Rightarrow> (f r, cl1) | Rejected msg r \<Rightarrow> (g msg r, cl1))
     = (case respond cl (attempts cl) rq of Resolved r \<Rightarrow> f r | Rejected msg r \<Rightarrow> g msg r,
        cl\<lparr>attempts := Suc (attempts cl)\<rparr>)"
  by (simp add: client_request_def split: axios_result.split)

lemma request_once:
  "request method endpoint d cl =
     (case respond cl (attempts cl) (request_of (CallRequest method endpoint d)) of
        Resolved r \<Rightarrow> Inr (rs_data r)
      | Rejected msg r \<Rightarrow> Inl (thrown (CallRequest method endpoint d) msg r),
      cl\<lparr>attempts := Suc (attempts cl)\<rparr>)"
proof -
  have "request method endpoint d cl =
     (let (out, cl1) = client_request (request_of (CallRequest method endpoint d)) cl
      in case out of
           Resolved r \<Rightarrow> (Inr (rs_data r), cl1)
         | Rejected msg r \<Rightarrow> (Inl (thrown (CallRequest method endpoint d) msg r), cl1))"
    unfolding request_def request_of.simps Let_def
    by (cases "client_request
         \<lparr>http_method = toUpperCase method,
            http_url = if starts_with endpoint ''/'' then endpoint else ''/'' @ endpoint,
            http_data =
              if (case d of None \<Rightarrow> False | Some x \<Rightarrow> json_truthy x) \<and>
                 toUpperCase method \<in> set [''POST'', ''PUT'', ''PATCH'']
              then d else None,
            http_params =
              if (case d of None \<Rightarrow> False | Some x \<Rightarrow> json_truthy x) \<and>
                 toUpperCase method = ''GET''
              then d else None\<rparr> cl")
      (simp split: axios_result.split option.split)
  then show ?thesis by (simp only: call_once)
qed

lemma perform_once:
  "\<exists>f. perform c cl =
         (case respond cl (attempts cl) (request_of c) of
            Resolved r \<Rightarrow> f r
          | Rejected msg r \<Rightarrow> Inl (thrown c msg r),
          cl\<lparr>attempts := Suc (attempts cl)\<rparr>)
       \<and> (\<forall>r. f r = Inl TypeError \<or> (\<exists>v. f r = Inr v))"
proof (cases c)
  case CallGetCompanies
  show ?thesis
    by (rule exI [where x = "\<lambda>r. if rs_data r = JsNull then Inl TypeError else Inr (rs_data r)"])
      (simp add: CallGetCompanies getCompanies_def call_once cong: axios_result.case_cong)
next
  case (CallGetCustomers slug)
  show ?thesis
    by (rule exI [where x = "\<lambda>r. if rs_data r = JsNull then Inl TypeError else Inr (rs_data r)"])
      (simp add: CallGetCustomers getCustomers_def call_once cong: axios_result.case_cong)
next
  case (CallGetProducts slug)
  show ?thesis
    by (rule exI [where x = "\<lambda>r. if rs_data r = JsNull then Inl TypeError else Inr (rs_data r)"])
      (simp add: CallGetProducts getProducts_def call_once cong: axios_result.case_cong)
next
  case (CallGetInvoices slug page pageSize filters)
  show ?thesis
    by (rule exI [where x = "\<lambda>r. if rs_data r = JsNull then Inl TypeError else Inr (rs_data r)"])
      (simp add: CallGetInvoices getInvoices_def call_once cong: axios_result.case_cong)
next
  case (CallCreateCustomer slug d)
  show ?thesis
    by (rule exI [where x = "\<lambda>r. Inr (spread [(''contactId'', location_id r)] (rs_data r))"])
      (simp add: CallCreateCustomer createCustomer_def call_once cong: axios_result.case_cong)
next
  case (CallCreateProduct slug d)
  show ?thesis
    by (rule exI [where x = "\<lambda>r. if rs_data r = JsNull then Inl TypeError else Inr (rs_data r)"])
      (simp add: CallCreateProduct createProduct_def call_once cong: axios_result.case_cong)
next
  case (CallCreateInvoice slug d)
  show ?thesis
    by (rule exI [where x = "\<lambda>r. Inr (spread [(''invoiceId'', location_id r)] (rs_data r))"])
      (simp add: CallCreateInvoice createInvoice_def call_once cong: axios_result.case_cong)
next
  case (CallCreateVoucher slug d)
  show ?thesis
    by (rule exI [where x = "\<lambda>r. if rs_data r = JsNull then Inl TypeError else Inr (rs_data r)"])
      (simp add: CallCreateVoucher createVoucher_def call_once cong: axios_result.case_cong)
next
  case (CallGetAccounts slug)
  show ?thesis
    by (rule exI [where x = "\<lambda>r. if rs_data r = JsNull then Inl TypeError else Inr (rs_data r)"])
      (simp add: CallGetAccounts getAccounts_def call_once cong: axios_result.case_cong)
next
  case (CallSetInvoiceCounter slug d)
  show ?thesis
    by (rule exI [where x = "\<lambda>r. if d = JsNull then Inl TypeError else Inr (rs_data r)"])
      (simp add: CallSetInvoiceCounter setInvoiceCounter_def call_once cong: axios_result.case_cong)
next
  case (CallSendInvoice slug i)
  show ?thesis
    by (rule exI [where x = "\<lambda>r. Inr (rs_data r)"])
      (simp add: CallSendInvoice sendInvoice_def call_once cong: axios_result.case_cong)
next
  case (CallAddInvoicePayment slug i d)
  show ?thesis
    by (rule exI [where x = "\<lambda>r. Inr (spread [(''paymentId'', location_id r)] (rs_data r))"])
      (simp add: CallAddInvoicePayment addInvoicePayment_def call_once cong: axios_result.case_cong)
next
  case (CallCreateSale slug d)
  show ?thesis
    by (rule exI [where x = "\<lambda>r. Inr (spread [(''saleId'', location_id r)] (rs_data r))"])
      (simp add: CallCreateSale createSale_def call_once cong: axios_result.case_cong)
next
  case (CallGetInvoice slug i)
  show ?thesis
    by (rule exI [where x = "\<lambda>r. Inr (rs_data r)"])
      (simp add: CallGetInvoice getInvoice_def call_once cong: axios_result.case_cong)
next
  case (CallRequest m e d)
  show ?thesis
    by (rule exI [where x = "\<lambda>r. Inr (rs_data r)"])
      (simp add: CallRequest request_once del: request_of.simps thrown.simps cong: axios_result.case_cong)
qed

lemma perform_outcome:
  "attempts (snd (perform c cl)) = Suc (attempts cl)"
  "respond cl (attempts cl) (request_of c) = Rejected msg r \<Longrightarrow>
     fst (perform c cl) = Inl (thrown c msg r)"
  "respond cl (attempts cl) (request_of c) = Resolved rs \<Longrightarrow>
     fst (perform c cl) = Inl TypeError \<or> (\<exists>v. fst (perform c cl) = Inr v)"
proof -
  from perform_once [of c cl] obtain f where
    p: "perform c cl =
         (case respond cl (attempts cl) (request_of c) of
            Resolved r \<Rightarrow> f r
          | Rejected msg r \<Rightarrow> Inl (thrown c msg r),
          cl\<lparr>attempts := Suc (attempts cl)\<rparr>)"
    and f: "\<forall>r. f r = Inl TypeError \<or> (\<exists>v. f r = Inr v)"
    by blast
  show "attempts (snd (perform c cl)) = Suc (attempts cl)"
    by (simp add: p)
  show "fst (perform c cl) = Inl (thrown c msg r)"
    if "respond cl (attempts cl) (request_of c) = Rejected msg r"
    using that by (simp add: p)
  show "fst (perform c cl) = Inl TypeError \<or> (\<exists>v. fst (perform c cl) = Inr v)"
    if "respond cl (attempts cl) (request_of c) = Resolved rs"
    using that f by (simp add: p)
qed

lemma testConnection_attempts: "attempts (snd (testConnection cl)) = Suc (attempts cl)"
proof -
  have "attempts (snd (getCompanies cl)) = Suc (attempts cl)"
    using perform_outcome(1) [of CallGetCompanies cl] by simp
  then show ?thesis
    by (cases "getCompanies cl")
      (auto simp: testConnection_def split: sum.splits json.splits)
qed

lemma flaky_first:
  "respond client0 (attempts client0) rq = Rejected ''Request failed with status code 503'' (Some unavailable)"
  "respond client0 (Suc (attempts client0)) rq
     = Resolved \<lparr> rs_status = 201, rs_data = JsArray [], rs_location = Some ''/sales/9'' \<rparr>"
  "attempts client0 = 0"
  by (simp_all add: client0_def flaky_once_def)
subsection \<open>Further concrete orders\<close>

lemma order_off_total_fields:
  "order_number order_off_total = 3403" "order_id order_off_total = 77"
  "customer_email order_off_total = ''Kari@Example.no''"
  "customer_first_name order_off_total = ''Kari''" "customer_last_name order_off_total = ''Nordmann''"
  "customer_company order_off_total = []" "shipping_first_name order_off_total = []"
  "shipping_last_name order_off_total = []" "shipping_name order_off_total = []"
  "has_billing_address order_off_total = False"
  "total_price order_off_total = JStr ''613.60''" "current_total_price order_off_total = JUndefined"
  "processed_at order_off_total = ''2025-09-21T10:00:00+02:00''" "created_at order_off_total = []"
  "buildSaleLines cfg0 order_off_total = buildSaleLines cfg0 order0"
  by (simp_all add: order_off_total_def order0_def buildSaleLines_def)

lemma order_empty_fields:
  "order_number order_empty = 3403" "order_id order_empty = 77"
  "customer_email order_empty = ''Kari@Example.no''"
  "customer_first_name order_empty = ''Kari''" "customer_last_name order_empty = ''Nordmann''"
  "customer_company order_empty = []" "shipping_first_name order_empty = []"
  "shipping_last_name order_empty = []" "shipping_name order_empty = []"
  "has_billing_address order_empty = False"
  by (simp_all add: order_empty_def order0_def)

lemma lines_empty: "buildSaleLines cfg0 order_empty = []"
  by (simp add: buildSaleLines_def order_empty_def ship_free_def ship_zero_set_def
      shipping_gross_def jsor_def parseFloat_def is_digit_def is_space_def parse_digits_def
      digit_val_def)

lemma toNumber_falsy: "\<not> truthy v \<Longrightarrow> toNumber v = 0"
  by (cases v) (simp_all add: parseFloat_def)

lemma shipping_gross_price: "shipping_gross s = shipping_price s"
  by (simp add: shipping_gross_def shipping_price_def jsor_def toNumber_falsy)

lemma no_lines_iff:
  "buildSaleLines cfg ord = []
     \<longleftrightarrow> line_items ord = [] \<and> (\<forall>s \<in> set (shipping_lines ord). shipping_price s \<le> 0)"
  by (auto simp: buildSaleLines_def shipping_sale_lines_filter filter_empty_conv
      shipping_gross_price not_less)

lemma prices_fallback:
  "shipping_price ship_free = 0" "shipping_price ship_zero_set = 0" "shipping_price ship_fallback = 64"
  by (simp_all add: shipping_price_def ship_free_def ship_zero_set_def ship_fallback_def
      parseFloat_def is_digit_def is_space_def parse_digits_def digit_val_def)

lemma lines_fallback:
  "buildSaleLines cfg0 order_fallback =
     [\<lparr>description = ''Courier'', account = ''3000'', vatType = ''HIGH'',
        netPrice = 5120, netAmount = 5120, vat = 1280, vatAmount = 1280, quantity = 1\<rparr>]"
  by (simp add: line_simps input_simps order_fallback_def ship_zero_set_def ship_fallback_def
      parse_simps)

lemma cfg_dry_fields:
  "dryRun cfg_dry = True" "buildSaleLines cfg_dry order0 = buildSaleLines cfg0 order0"
  by (simp_all add: cfg_dry_def buildSaleLines_def shipping_sale_lines_filter item_line_def
      shipping_line_of_def netPerUnitOre_def)

lemma customer0:
  "getOrCreateCustomer order0 world0 =
     (Inr customer1,
      world0\<lparr> customers := [customer1], nextId := 2,
              calls := [GetCustomers, CreateCustomer ''Kari Nordmann''],
              customerCache := no_cache(''kari@example.no'' \<mapsto> customer1) \<rparr>)"
  by (simp add: getOrCreateCustomer_def remote_simps string_simps world_simps world0_def
      customer1_def order0_fields stror_def Let_def)

lemma customer_off_total:
  "fst (getOrCreateCustomer order_off_total world0) = Inr customer1"
  by (simp add: getOrCreateCustomer_def remote_simps string_simps world_simps world0_def
      customer1_def order_off_total_fields stror_def Let_def)

lemma deviation_off_total:
  "shopifyGross order_off_total (gross (calculateTotals (buildSaleLines cfg0 order_off_total)))
     - gross (calculateTotals (buildSaleLines cfg0 order_off_total)) = 10000"
  by (simp add: shopifyGross_def toOre_def jsor_def order_off_total_fields totals0 parseFloat_def
      is_digit_def is_space_def parse_digits_def digit_val_def Math_round_def floor_rat_numeral)

lemma customer_empty:
  "fst (getOrCreateCustomer order_empty world0) = Inr customer1"
  by (simp add: getOrCreateCustomer_def remote_simps string_simps world_simps world0_def
      customer1_def order_empty_fields stror_def Let_def)






section \<open>Properties of the program\<close>

subsection \<open>C1: search before create\<close>

text \<open>
  C1. Every \<open>CreateSale\<close> request of a run is sent after a \<open>SearchSale\<close> request for the
  same sale number, whatever requests fail. When the search is answered and a sale with
  the order's number exists, no \<open>CreateSale\<close> is sent and the number of sales with that
  number stays the same. When an order is processed twice outside a dry run, the second
  run starting from the sales the first run left, the searches of both runs are answered
  and at most one sale had the number before, then at most one sale has the number
  afterwards, and exactly one if the first run succeeded. A search that fails is treated
  by \<open>findSaleByNumber\<close> as "not found", so nothing is promised for that case.
\<close>

theorem search_before_create:
  "searched_before_create [] (issued w (snd (migrateOrder cfg ord w)))
   \<and> ((\<forall>n. \<not> fails w (SearchSale (sale_key ord)) n) \<and> 0 < count_sales (sale_key ord) w \<longrightarrow>
        (\<forall>c \<in> set (issued w (snd (migrateOrder cfg ord w))). \<not> is_create_sale c)
        \<and> count_sales (sale_key ord) (snd (migrateOrder cfg ord w)) = count_sales (sale_key ord) w)
   \<and> (\<not> dryRun cfg
        \<and> (\<forall>n. \<not> fails w (SearchSale (sale_key ord)) n)
        \<and> (\<forall>n. \<not> fails w' (SearchSale (sale_key ord)) n)
        \<and> sales w' = sales (snd (migrateOrder cfg ord w))
        \<and> count_sales (sale_key ord) w \<le> 1 \<longrightarrow>
        count_sales (sale_key ord) (snd (migrateOrder cfg ord w')) \<le> 1
        \<and> (fst (migrateOrder cfg ord w) = Inr () \<longrightarrow>
             count_sales (sale_key ord) (snd (migrateOrder cfg ord w')) = 1))"
proof -
  let ?k = "sale_key ord"
  let ?w1 = "snd (migrateOrder cfg ord w)"
  let ?w2 = "snd (migrateOrder cfg ord w')"
  have found: "(\<forall>c \<in> set (issued w ?w1). \<not> is_create_sale c) \<and> count_sales ?k ?w1 = count_sales ?k w"
    if "\<forall>n. \<not> fails w (SearchSale ?k) n" and "0 < count_sales ?k w"
    using migrateOrder_existing [OF that, of cfg] by (simp add: count_sales_def)
  have twice: "count_sales ?k ?w2 \<le> 1 \<and> (fst (migrateOrder cfg ord w) = Inr () \<longrightarrow> count_sales ?k ?w2 = 1)"
    if nd: "\<not> dryRun cfg"
      and f1: "\<forall>n. \<not> fails w (SearchSale ?k) n"
      and f2: "\<forall>n. \<not> fails w' (SearchSale ?k) n"
      and sw: "sales w' = sales ?w1"
      and c0: "count_sales ?k w \<le> 1"
  proof -
    have same: "count_sales ?k w' = count_sales ?k ?w1"
      using sw by (simp add: count_sales_def sale_keys_def)
    have one: "count_sales ?k ?w1 \<le> 1"
    proof (cases "0 < count_sales ?k w")
      case True
      with migrateOrder_existing [OF f1, of cfg] c0 show ?thesis
        by (simp add: count_sales_def)
    next
      case False
      with migrateOrder_keys [of cfg ord w] show ?thesis
        by (auto simp: count_sales_def)
    qed
    have two: "count_sales ?k ?w2 \<le> 1"
    proof (cases "0 < count_sales ?k w'")
      case True
      with migrateOrder_existing [OF f2, of cfg] one same show ?thesis
        by (simp add: count_sales_def)
    next
      case False
      with migrateOrder_keys [of cfg ord w'] show ?thesis
        by (auto simp: count_sales_def)
    qed
    have three: "count_sales ?k ?w2 = 1" if ok: "fst (migrateOrder cfg ord w) = Inr ()"
    proof -
      from migrateOrder_success [OF ok nd] one have "count_sales ?k ?w1 = 1"
        by simp
      with same have "count_sales ?k w' = 1" by simp
      with migrateOrder_existing [OF f2, of cfg] show ?thesis
        by (simp add: count_sales_def)
    qed
    from two three show ?thesis by blast
  qed
  from migrateOrder_calls [of w cfg ord] found twice show ?thesis
    by blast
qed

text \<open>
  The order \<open>#3403\<close> processed twice on an empty ledger that answers every request:
  one sale afterwards.
\<close>

theorem search_before_create_witness:
  "\<not> dryRun cfg0
   \<and> sales world1 = sales (snd (migrateOrder cfg0 order0 world0))
   \<and> count_sales (sale_key order0) world0 \<le> 1
   \<and> searched_before_create [] (issued world0 (snd (migrateOrder cfg0 order0 world0)))
   \<and> count_sales (sale_key order0) (snd (migrateOrder cfg0 order0 world1)) = 1"
proof -
  have h1: "\<not> dryRun cfg0" by (simp add: cfg0_fields)
  have h2: "\<forall>n. \<not> fails world0 (SearchSale (sale_key order0)) n"
    by (simp add: world0_def never_fails_def)
  have h3: "\<forall>n. \<not> fails world1 (SearchSale (sale_key order0)) n"
    by (simp add: world1_def never_fails_def)
  have h4: "sales world1 = sales (snd (migrateOrder cfg0 order0 world0))" by (simp add: run0)
  have h5: "count_sales (sale_key order0) world0 \<le> 1"
    by (simp add: count_sales_def sale_keys_def world0_def)
  have h6: "fst (migrateOrder cfg0 order0 world0) = Inr ()" by (simp add: run0)
  from search_before_create [of world0 cfg0 order0 world1] h1 h2 h3 h4 h5 h6 show ?thesis
    by blast
qed

text \<open>
  The same order processed a second time while the search request fails: the failure is
  swallowed, the sale is created again and the ledger holds two sales numbered \<open>#3403\<close>.
\<close>

theorem redelivery_duplicate_counterexample:
  "\<not> dryRun cfg0
   \<and> migrateOrder cfg0 order0 world0 = (Inr (), world1)
   \<and> sales world1_search_down = sales world1
   \<and> count_sales (sale_key order0) world1 = 1
   \<and> fst (migrateOrder cfg0 order0 world1_search_down) = Inr ()
   \<and> count_sales (sale_key order0) (snd (migrateOrder cfg0 order0 world1_search_down)) = 2"
  by (simp add: run0 cfg0_fields)
    (simp add: eval_simps world1_search_down_def world1_def customer1_def order0_fields cfg0_fields
      totals0 lines0_ne count_sales_def sale_keys_def)

subsection \<open>C2: net plus VAT is gross\<close>



subsection \<open>C3: fee and settlement\<close>

text \<open>
  C3. When the payment requests are answered: if the computed fee is at least the gross
  amount, \<open>computeFeeAmount\<close> returns \<open>0\<close> and the only payment is the gross amount on
  the bank account (no payment at all when the gross amount is not positive); if the
  computed fee is positive and below the gross amount, the payments are gross minus fee
  on the bank account and the fee on the fee account; the registered payments add up to
  every gross amount that is not negative, and every registered amount is positive.
\<close>

theorem fee_settlement:
  assumes "\<forall>a x n. \<not> fails w (AddSalePayment sid a x) n"
  shows "(g \<le> computedFee cfg g \<longrightarrow>
            computeFeeAmount cfg g = 0
            \<and> issued w (snd (settlePayments cfg sid d g w))
                = (if 0 < g then [AddSalePayment sid (bankAccount cfg) g] else []))
       \<and> (0 < computedFee cfg g \<and> computedFee cfg g < g \<longrightarrow>
            issued w (snd (settlePayments cfg sid d g w))
              = [AddSalePayment sid (bankAccount cfg) (g - computedFee cfg g),
                 AddSalePayment sid (feeAccount cfg) (computedFee cfg g)])
       \<and> (0 \<le> g \<longrightarrow> sum_list (payment_amounts (issued w (snd (settlePayments cfg sid d g w)))) = g)
       \<and> (\<forall>x \<in> set (payment_amounts (issued w (snd (settlePayments cfg sid d g w)))). 0 < x)"
  unfolding settlePayments_issued [OF assms]
  by (auto simp: computeFeeAmount_def bankPaymentAmount_def)

text \<open>
  A fee of 2.9 percent plus 250: on a gross amount of 51360 the fee is 1739 and the bank
  receives 49621; on a gross amount of 200 the computed fee of 256 is dropped.
\<close>

theorem fee_settlement_witness:
  "computedFee cfg_fee 51360 = 1739
   \<and> issued world0 (snd (settlePayments cfg_fee ''2'' ''2025-09-21'' 51360 world0))
       = [AddSalePayment ''2'' ''1920:10001'' 49621, AddSalePayment ''2'' ''7770'' 1739]
   \<and> computedFee cfg_fee 200 = 256
   \<and> computeFeeAmount cfg_fee 200 = 0
   \<and> issued world0 (snd (settlePayments cfg_fee ''2'' ''2025-09-21'' 200 world0))
       = [AddSalePayment ''2'' ''1920:10001'' 200]"
proof -
  have h: "\<forall>a x n. \<not> fails world0 (AddSalePayment ''2'' a x) n"
    by (simp add: world0_def never_fails_def)
  have f1: "computedFee cfg_fee 51360 = 1739"
    by (simp add: computedFee_def input_simps Math_round_def floor_rat_numeral)
  have f2: "computedFee cfg_fee 200 = 256"
    by (simp add: computedFee_def input_simps Math_round_def floor_rat_numeral)
  have a: "bankAccount cfg_fee = ''1920:10001''" "feeAccount cfg_fee = ''7770''"
    by (simp_all add: input_simps)
  from fee_settlement [OF h, of 51360 cfg_fee "''2025-09-21''"]
    fee_settlement [OF h, of 200 cfg_fee "''2025-09-21''"] f1 f2 a
  show ?thesis by simp
qed

subsection \<open>C4: replies of the orders-paid webhook\<close>




subsection \<open>C5: dry run\<close>

text \<open>
  C5. With \<open>dryRun\<close> set, processing the order \<open>#3403\<close> on a ledger without customers
  sends a \<open>CreateCustomer\<close> request and the ledger holds a new customer afterwards:
  \<open>getOrCreateCustomer\<close> runs before the dry-run return of \<open>migrateOrder\<close>.
\<close>

theorem dry_run_creates_customer:
  "dryRun cfg_dry \<and> customers world0 = []
   \<and> filter is_write (issued world0 (snd (migrateOrder cfg_dry order0 world0)))
       = [CreateCustomer ''Kari Nordmann'']
   \<and> customers (snd (migrateOrder cfg_dry order0 world0)) = [customer1]"
  by (simp add: migrateOrder_steps customer0 afterCustomer_def Let_def cfg_dry_fields lines0_ne
      customer1_def stror_def issued_def warnTotals_def emit_def)
    (simp add: world0_def)

subsection \<open>C6: rounding of the net amount\<close>




subsection \<open>C7: deviation from the reported total\<close>

text \<open>
  C7. The total that an order reports does not decide how the order is processed: the
  result of \<open>migrateOrder\<close> and the sales in the ledger afterwards (identifier, payload
  and payments of each) are the same for every value of \<open>total_price\<close> and
  \<open>current_total_price\<close>. For an order whose customer is resolved, which has lines and
  whose computed gross amount deviates from the reported total by more than 2, the
  deviation is printed as a warning; if moreover the run is not a dry run, no sale carries
  the number of the order yet and every request is answered, then processing succeeds and
  exactly one sale carries the number afterwards.
\<close>

theorem totals_deviation_only_warns:
  "fst (migrateOrder cfg (ord\<lparr>total_price := t, current_total_price := t'\<rparr>) w)
     = fst (migrateOrder cfg ord w)
   \<and> sale_records (snd (migrateOrder cfg (ord\<lparr>total_price := t, current_total_price := t'\<rparr>) w))
       = sale_records (snd (migrateOrder cfg ord w))
   \<and> (fst (getOrCreateCustomer ord w) = Inr cust
        \<and> stror (contactId cust) (customerId cust) \<noteq> []
        \<and> buildSaleLines cfg ord \<noteq> []
        \<and> 2 < \<bar>shopifyGross ord (gross (calculateTotals (buildSaleLines cfg ord)))
                - gross (calculateTotals (buildSaleLines cfg ord))\<bar>
       \<longrightarrow> WarnTotalsDiffer ((shopifyGross ord (gross (calculateTotals (buildSaleLines cfg ord)))
                               - gross (calculateTotals (buildSaleLines cfg ord))) / 100)
             \<in> set (console (snd (migrateOrder cfg ord w)))
           \<and> (\<not> dryRun cfg \<and> count_sales (sale_key ord) w = 0 \<and> (\<forall>c n. \<not> fails w c n)
                \<longrightarrow> fst (migrateOrder cfg ord w) = Inr ()
                    \<and> count_sales (sale_key ord) (snd (migrateOrder cfg ord w)) = 1))"
proof (cases "getOrCreateCustomer ord w")
  case (Pair r w1)
  have ok: "fst (migrateOrder cfg ord w) = Inr ()
        \<and> count_sales (sale_key ord) (snd (migrateOrder cfg ord w)) = 1"
    if "fst (getOrCreateCustomer ord w) = Inr cust"
      and "stror (contactId cust) (customerId cust) \<noteq> []"
      and "buildSaleLines cfg ord \<noteq> []"
      and "\<not> dryRun cfg" and "count_sales (sale_key ord) w = 0" and "\<forall>c n. \<not> fails w c n"
    using migrateOrder_answered [OF that(6,1,2,3,4,5)] .
  show ?thesis
  proof (cases r)
    case (Inl e)
    with Pair show ?thesis by (simp add: migrateOrder_steps)
  next
    case (Inr c)
    with Pair afterCustomer_total_price [where cfg = cfg and ord = ord and t = t and t' = t'
        and cust = c and w = w1] afterCustomer_warns [of c cfg ord w1] ok
    show ?thesis by (auto simp: migrateOrder_steps)
  qed
qed

text \<open>
  The order \<open>#3403\<close> with a reported total of 613.60 instead of 513.60, on an empty
  ledger that answers every request: a warning about a difference of 100.00, the same
  result as without a reported total, and one sale numbered \<open>#3403\<close> afterwards.
\<close>

theorem totals_deviation_only_warns_witness:
  "fst (getOrCreateCustomer order_off_total world0) = Inr customer1
   \<and> stror (contactId customer1) (customerId customer1) \<noteq> []
   \<and> buildSaleLines cfg0 order_off_total \<noteq> []
   \<and> \<not> dryRun cfg0
   \<and> count_sales (sale_key order_off_total) world0 = 0
   \<and> fst (migrateOrder cfg0
            (order_off_total\<lparr>total_price := JUndefined, current_total_price := JUndefined\<rparr>) world0)
       = fst (migrateOrder cfg0 order_off_total world0)
   \<and> WarnTotalsDiffer 100 \<in> set (console (snd (migrateOrder cfg0 order_off_total world0)))
   \<and> fst (migrateOrder cfg0 order_off_total world0) = Inr ()
   \<and> count_sales (sale_key order_off_total) (snd (migrateOrder cfg0 order_off_total world0)) = 1"
proof -
  have h1: "fst (getOrCreateCustomer order_off_total world0) = Inr customer1"
    by (rule customer_off_total)
  have h2: "stror (contactId customer1) (customerId customer1) \<noteq> []"
    by (simp add: customer1_def stror_def)
  have h3: "buildSaleLines cfg0 order_off_total \<noteq> []"
    by (simp add: order_off_total_fields lines0_ne)
  have h4: "\<not> dryRun cfg0" by (simp add: cfg0_fields)
  have h5: "count_sales (sale_key order_off_total) world0 = 0"
    by (simp add: count_sales_def sale_keys_def world0_def)
  have h6: "\<forall>c n. \<not> fails world0 c n"
    by (simp add: world0_def never_fails_def)
  from totals_deviation_only_warns [where cfg = cfg0 and ord = order_off_total and t = JUndefined
      and t' = JUndefined and w = world0 and cust = customer1]
    h1 h2 h3 h4 h5 h6 deviation_off_total
  show ?thesis by simp
qed

text \<open>
  The same order, deviating by 10000 minor units, is processed without error and its sale
  is created.
\<close>

theorem totals_deviation_counterexample:
  "2 < \<bar>shopifyGross order_off_total (gross (calculateTotals (buildSaleLines cfg0 order_off_total)))
        - gross (calculateTotals (buildSaleLines cfg0 order_off_total))\<bar>
   \<and> fst (migrateOrder cfg0 order_off_total world0) = Inr ()
   \<and> count_sales (sale_key order_off_total) world0 = 0
   \<and> count_sales (sale_key order_off_total) (snd (migrateOrder cfg0 order_off_total world0)) = 1"
  by (simp add: eval_simps world0_def order_off_total_fields cfg0_fields
      totals0 lines0_ne count_sales_def sale_keys_def)

subsection \<open>C8: retries of the ledger client\<close>

text \<open>
  C8. Every method of \<open>FikenAPI\<close> that sends a request calls the axios client exactly
  once. When that call is rejected, after a network failure (no response) or with a
  response of any status, 5xx and 4xx alike, the method throws: the error of axios as it
  is, or for \<open>request\<close> the error built from it, which carries the same response. When the
  call resolves, the method returns or throws a \<open>TypeError\<close> of its own. \<open>testConnection\<close>
  makes one call as well.
\<close>

theorem request_single_attempt:
  "attempts (snd (perform c cl)) = Suc (attempts cl)
   \<and> attempts (snd (testConnection cl)) = Suc (attempts cl)
   \<and> (\<forall>msg r. respond cl (attempts cl) (request_of c) = Rejected msg r \<longrightarrow>
         fst (perform c cl) = Inl (thrown c msg r))
   \<and> (\<forall>rs. respond cl (attempts cl) (request_of c) = Resolved rs \<longrightarrow>
         fst (perform c cl) = Inl TypeError \<or> (\<exists>v. fst (perform c cl) = Inr v))"
  using perform_outcome [where c = c and cl = cl] testConnection_attempts [of cl] by blast

text \<open>
  A search for the sale \<open>#3403\<close> on a service that answers the first call with 503: one
  call, and the error of axios is thrown.
\<close>

theorem request_single_attempt_witness:
  "respond client0 (attempts client0) (request_of search0)
     = Rejected ''Request failed with status code 503'' (Some unavailable)
   \<and> attempts (snd (perform search0 client0)) = Suc (attempts client0)
   \<and> fst (perform search0 client0)
       = Inl (AxiosError ''Request failed with status code 503'' (Some unavailable))"
proof -
  have t: "thrown search0 ''Request failed with status code 503'' (Some unavailable)
             = AxiosError ''Request failed with status code 503'' (Some unavailable)"
    by (simp add: search0_def unavailable_def)
  from request_single_attempt [where c = search0 and cl = client0] flaky_first(1) [of "request_of search0"] t
  show ?thesis by simp
qed

text \<open>
  The service rejects the first call with 503 and would resolve a second call with 201:
  \<open>request\<close> throws the 503 after one call.
\<close>

theorem transient_error_not_retried_counterexample:
  "respond client0 0 (request_of search0)
     = Rejected ''Request failed with status code 503'' (Some unavailable)
   \<and> rs_status unavailable = 503
   \<and> respond client0 1 (request_of search0)
       = Resolved \<lparr> rs_status = 201, rs_data = JsArray [], rs_location = Some ''/sales/9'' \<rparr>
   \<and> fst (request ''GET'' ''/companies/demo/sales''
            (Some (JsObject [(''saleNumber'', JsString ''#3403''), (''pageSize'', JsNumber 1)])) client0)
       = Inl (AxiosError ''Request failed with status code 503'' (Some unavailable))
   \<and> attempts (snd (request ''GET'' ''/companies/demo/sales''
            (Some (JsObject [(''saleNumber'', JsString ''#3403''), (''pageSize'', JsNumber 1)])) client0)) = 1"
  by (simp add: request_once search0_def flaky_first [simplified] del: request_of.simps)
    (simp add: client0_def flaky_once_def unavailable_def)

subsection \<open>C9: shipping lines without a price, orders without lines\<close>

text \<open>
  C9. \<open>buildSaleLines\<close> produces one line for each line item and one for each shipping
  line whose price is positive, in this order; a shipping line whose price is zero (or
  negative) contributes no line. So an order yields no line exactly when it has no line
  item and no shipping line with a positive price. Processing an order fails with the
  no-billable-lines error if and only if \<open>getOrCreateCustomer\<close> has returned a customer
  with an identifier and the order yields no line.
\<close>

theorem no_billable_lines:
  "buildSaleLines cfg ord
     = map (item_line cfg) (line_items ord) @
       map (shipping_line_of cfg) (filter (\<lambda>s. 0 < shipping_price s) (shipping_lines ord))
   \<and> (buildSaleLines cfg ord = []
        \<longleftrightarrow> line_items ord = [] \<and> (\<forall>s \<in> set (shipping_lines ord). shipping_price s \<le> 0))
   \<and> (fst (migrateOrder cfg ord w) = Inl NoBillableLines
        \<longleftrightarrow> (\<exists>cust. fst (getOrCreateCustomer ord w) = Inr cust
                     \<and> stror (contactId cust) (customerId cust) \<noteq> [])
            \<and> buildSaleLines cfg ord = [])"
proof -
  have "fst (migrateOrder cfg ord w) = Inl NoBillableLines
        \<longleftrightarrow> (\<exists>cust. fst (getOrCreateCustomer ord w) = Inr cust
                     \<and> stror (contactId cust) (customerId cust) \<noteq> [])
            \<and> buildSaleLines cfg ord = []"
  proof (cases "getOrCreateCustomer ord w")
    case (Pair r w1)
    show ?thesis
    proof (cases r)
      case (Inl e)
      with Pair getOrCreateCustomer_error [of ord w e w1] show ?thesis
        by (auto simp: migrateOrder_steps)
    next
      case (Inr cust)
      with Pair afterCustomer_no_lines [of cfg ord cust w1] show ?thesis
        by (auto simp: migrateOrder_steps)
    qed
  qed
  moreover have "buildSaleLines cfg ord
     = map (item_line cfg) (line_items ord) @
       map (shipping_line_of cfg) (filter (\<lambda>s. 0 < shipping_price s) (shipping_lines ord))"
    by (simp add: buildSaleLines_def shipping_sale_lines_filter shipping_gross_price)
  ultimately show ?thesis
    using no_lines_iff [of cfg ord] by blast
qed

text \<open>
  An order with no line item and two free shipping lines, one of them with a
  \<open>price_set\<close> of 64.00 beside its price of \<open>0.00\<close>: the customer is created and the
  order fails with the no-billable-lines error. A shipping line without the field
  \<open>price\<close> has the price 64.00 of its \<open>price_set\<close> and is kept.
\<close>

theorem no_billable_lines_witness:
  "fst (getOrCreateCustomer order_empty world0) = Inr customer1
   \<and> stror (contactId customer1) (customerId customer1) \<noteq> []
   \<and> line_items order_empty = []
   \<and> map shipping_price (shipping_lines order_empty) = [0, 0]
   \<and> buildSaleLines cfg0 order_empty = []
   \<and> fst (migrateOrder cfg0 order_empty world0) = Inl NoBillableLines
   \<and> map shipping_price (shipping_lines order_fallback) = [0, 64]
   \<and> map netAmount (buildSaleLines cfg0 order_fallback) = [5120]
   \<and> map vatAmount (buildSaleLines cfg0 order_fallback) = [1280]"
proof -
  have h1: "fst (getOrCreateCustomer order_empty world0) = Inr customer1"
    by (rule customer_empty)
  have h2: "stror (contactId customer1) (customerId customer1) \<noteq> []"
    by (simp add: customer1_def stror_def)
  have h3: "line_items order_empty = []"
    "map shipping_price (shipping_lines order_empty) = [0, 0]"
    "map shipping_price (shipping_lines order_fallback) = [0, 64]"
    by (simp_all add: order_empty_def order_fallback_def prices_fallback)
  from no_billable_lines [of cfg0 order_empty world0] h1 h2 h3
  have "buildSaleLines cfg0 order_empty = []
        \<and> fst (migrateOrder cfg0 order_empty world0) = Inl NoBillableLines"
    by auto
  with h1 h2 h3 lines_fallback show ?thesis by simp
qed

text \<open>
  The same order when the \<open>CreateCustomer\<close> request fails: the order yields no line, and
  the error is the failure of that request.
\<close>

theorem no_lines_other_error_counterexample:
  "buildSaleLines cfg0 order_empty = []
   \<and> fst (migrateOrder cfg0 order_empty world0_customer_down)
       = Inl (RemoteFailure (CreateCustomer ''Kari Nordmann''))"
  by (simp add: lines_empty migrateOrder_steps getOrCreateCustomer_def remote_simps string_simps
      world_simps world0_customer_down_def world0_def order_empty_fields stror_def Let_def)

subsection \<open>C10: webhook secret not configured\<close>

text \<open>
  C10. With an empty webhook secret, \<open>verifyShopifySignature\<close> is false for every request
  and every keyed hash. Each of the three webhook routes answers 401 to every \<open>POST\<close>
  whose body \<open>express.json\<close> passes on, and answers with the status of the middleware's
  failure when the body is refused; the queue is left as it was in both cases.
\<close>

theorem unconfigured_secret_rejects:
  "\<not> verifyShopifySignature hmac req []
   \<and> post_orders_paid hmac enq [] header (BodyPassed raw pl) q = (Reply 401 ''invalid signature'', q)
   \<and> post_refunds_create hmac [] header (BodyPassed raw pl) = Reply 401 ''invalid signature''
   \<and> post_orders_cancelled hmac [] header (BodyPassed raw pl) = Reply 401 ''invalid signature''
   \<and> post_orders_paid hmac enq [] header (BodyRefused st page) q = (Reply st page, q)
   \<and> post_refunds_create hmac [] header (BodyRefused st page) = Reply st page
   \<and> post_orders_cancelled hmac [] header (BodyRefused st page) = Reply st page"
  by (simp add: verifyShopifySignature_def orders_paid_def refunds_create_def orders_cancelled_def
      post_orders_paid_def post_refunds_create_def post_orders_cancelled_def express_json_def)

text \<open>
  A correctly signed request on a server without a secret is answered 401 and nothing is
  enqueued.
\<close>

theorem unconfigured_secret_rejects_witness:
  "post_orders_paid toy_hmac enq_ok [] (Some signature0) (BodyPassed (Some bytes0) payload0) []
     = (Reply 401 ''invalid signature'', [])"
  using unconfigured_secret_rejects [of toy_hmac _ enq_ok "Some signature0" "Some bytes0" payload0 "[]"]
  by simp

text \<open>
  On the same server, a \<open>POST\<close> whose body the middleware refuses as unparsable is
  answered 400, not 401.
\<close>

theorem unconfigured_secret_bad_body_counterexample:
  "post_orders_paid toy_hmac enq_ok [] (Some signature0) unparsable [] = (Reply 400 ''Bad Request'', [])
   \<and> post_refunds_create toy_hmac [] (Some signature0) unparsable = Reply 400 ''Bad Request''
   \<and> post_orders_cancelled toy_hmac [] (Some signature0) unparsable = Reply 400 ''Bad Request''"
  by (simp add: post_orders_paid_def post_refunds_create_def post_orders_cancelled_def
      express_json_def unparsable_def)

end
